theory Spec2Isabelle
  imports Complex_Main
begin

chapter \<open>The BirdTag frontend: upload pipeline, credentials and push channel\<close>

text \<open>
  The repository holds two generations of the same browser client. The directory
  \<^verbatim>\<open>birdtag\<close> has the fetch-based one (\<^verbatim>\<open>utils/api.js\<close>, \<^verbatim>\<open>services/websocket.js\<close>,
  the upload view), the directory \<^verbatim>\<open>bird-tag\<close> the axios-based one (\<^verbatim>\<open>ApiService\<close>,
  \<^verbatim>\<open>AuthService\<close>, a second \<^verbatim>\<open>WebSocketService\<close>, the dashboard view). Both are embedded
  here, function by function, under the names the sources use.
\<close>

section \<open>JavaScript values\<close>

text \<open>
  What \<^verbatim>\<open>JSON.parse\<close> can return. An object is a finite map from property names to
  values; reading a property that is absent gives \<^verbatim>\<open>undefined\<close>, here \<open>None\<close>.
\<close>

datatype jsvalue =
    JNull
  | JBool bool
  | JNum rat
  | JStr string
  | JArr "jsvalue list"
  | JObj "string \<Rightarrow> jsvalue option"

type_synonym jsobject = "string \<rightharpoonup> jsvalue"

text \<open>Object spread \<^verbatim>\<open>{...a, ...b}\<close>: the properties of \<open>a\<close>, overridden by those of \<open>b\<close>.\<close>

definition spread :: "jsobject \<Rightarrow> jsobject \<Rightarrow> jsobject" where
  "spread a b = a ++ b"

text \<open>\<^verbatim>\<open>Array.prototype.findIndex\<close>; JavaScript's \<^verbatim>\<open>-1\<close> is \<open>None\<close>.\<close>

fun findIndex :: "('a \<Rightarrow> bool) \<Rightarrow> 'a list \<Rightarrow> nat option" where
  "findIndex P [] = None"
| "findIndex P (x # xs) = (if P x then Some 0 else map_option Suc (findIndex P xs))"

text \<open>
  Strict equality \<^verbatim>\<open>a === b\<close> of two values that may be \<^verbatim>\<open>undefined\<close>, as the
  dashboard's message handler uses it. Two primitives (strings, numbers, booleans,
  \<^verbatim>\<open>null\<close>, \<^verbatim>\<open>undefined\<close>) are equal when they are the same value. An array or an
  object is equal only to itself, whatever it holds. In the handler one operand is read
  from the message that \<^verbatim>\<open>JSON.parse\<close> has made of the frame just received, and the
  other is a constant or is read from a file that was listed before: an array or object
  on one side is then never the one on the other side, and the comparison is false.
\<close>

fun primitive :: "jsvalue option \<Rightarrow> bool" where
  "primitive (Some (JArr xs)) = False"
| "primitive (Some (JObj m)) = False"
| "primitive v = True"

fun strictEquals :: "jsvalue option \<Rightarrow> jsvalue option \<Rightarrow> bool" where
  "strictEquals None b = (b = None)"
| "strictEquals (Some JNull) b = (b = Some JNull)"
| "strictEquals (Some (JBool x)) b = (b = Some (JBool x))"
| "strictEquals (Some (JNum x)) b = (b = Some (JNum x))"
| "strictEquals (Some (JStr x)) b = (b = Some (JStr x))"
| "strictEquals (Some (JArr xs)) b = False"
| "strictEquals (Some (JObj m)) b = False"

text \<open>
  Truthiness, as \<^verbatim>\<open>if (x)\<close>, \<^verbatim>\<open>!x\<close> and \<^verbatim>\<open>a || b\<close> test it. A value that may be
  \<^verbatim>\<open>undefined\<close> or \<^verbatim>\<open>null\<close> is an option; \<open>None\<close> is falsy.
\<close>

fun truthy :: "jsvalue \<Rightarrow> bool" where
  "truthy JNull = False"
| "truthy (JBool b) = b"
| "truthy (JNum r) = (r \<noteq> 0)"
| "truthy (JStr s) = (s \<noteq> [])"
| "truthy (JArr xs) = True"
| "truthy (JObj m) = True"

fun truthyStr :: "string option \<Rightarrow> bool" where
  "truthyStr None = False"
| "truthyStr (Some s) = (s \<noteq> [])"

text \<open>\<^verbatim>\<open>a || b\<close> on strings that may be missing.\<close>

definition orElse :: "string option \<Rightarrow> string option \<Rightarrow> string option" where
  "orElse a b = (if truthyStr a then a else b)"

text \<open>
  Numbers that the progress callbacks compute. Division by zero does not raise in
  JavaScript: \<^verbatim>\<open>0 / 0\<close> is \<^verbatim>\<open>NaN\<close> and \<^verbatim>\<open>n / 0\<close> is \<^verbatim>\<open>Infinity\<close> for a positive
  \<open>n\<close>; arithmetic with \<^verbatim>\<open>undefined\<close> gives \<^verbatim>\<open>NaN\<close>. A finite result is the exact
  rational here, where JavaScript has the double nearest to it; that rounding keeps a
  quotient within the bounds 0 and 1, and its hundredfold within 0 and 100.
\<close>

datatype jsnumber = Num rat | NaN | Infinity

definition jsDivide :: "nat \<Rightarrow> nat \<Rightarrow> jsnumber" where
  "jsDivide a b = (if b = 0 then (if a = 0 then NaN else Infinity) else Num (of_nat a / of_nat b))"

fun jsTimes :: "jsnumber \<Rightarrow> rat \<Rightarrow> jsnumber" where
  "jsTimes (Num x) k = Num (x * k)"
| "jsTimes NaN k = NaN"
| "jsTimes Infinity k = (if k = 0 then NaN else Infinity)"

text \<open>\<^verbatim>\<open>Math.round\<close>: the nearest integer, a tie going up.\<close>

fun Math_round :: "jsnumber \<Rightarrow> jsnumber" where
  "Math_round (Num x) = Num (of_int \<lfloor>x + 1 / 2\<rfloor>)"
| "Math_round NaN = NaN"
| "Math_round Infinity = Infinity"

text \<open>
  What a function throws or a promise rejects with. \<open>Error v\<close> is \<^verbatim>\<open>new Error(v)\<close>.
\<close>

datatype jserror = TypeError | SyntaxError | NetworkError | Error jsvalue

text \<open>
  The arguments callbacks are invoked with: a parsed message, an error, a close event
  (its code), a connection status.
\<close>

datatype arg = Data jsvalue | ErrorArg jserror | CloseEvent nat | Status string "nat option"

section \<open>Token storage (birdtag, utils/auth.js)\<close>

type_synonym storage = "string \<rightharpoonup> string"

text \<open>The browser as the code sees it: \<^verbatim>\<open>localStorage\<close>, the page's path, and the
  requests that \<^verbatim>\<open>fetch\<close> has sent so far.\<close>

record fetchOptions =
  http_method :: "string option"
  headers :: "string \<rightharpoonup> string"
  body :: "jsvalue option"

record browser =
  localStorage :: storage
  pathname :: string
  fetched :: "(string \<times> fetchOptions) list"

definition getToken :: "storage \<Rightarrow> string option" where
  "getToken ls = ls ''jwt_token''"

definition clearToken :: "storage \<Rightarrow> storage" where
  "clearToken ls = ls(''jwt_token'' := None, ''access_token'' := None, ''refresh_token'' := None)"

section \<open>REST calls and the byte transfer (birdtag, utils/api.js)\<close>

text \<open>
  What the module takes from its surroundings: the configured URLs, \<^verbatim>\<open>JSON.parse\<close>
  (\<open>None\<close> when it throws), \<^verbatim>\<open>JSON.stringify\<close>, the answer of the network to a
  request that \<^verbatim>\<open>fetch\<close> sends (\<open>None\<close> when the network fails),
  \<^verbatim>\<open>encodeURIComponent\<close>, and whether the \<^verbatim>\<open>WebSocket\<close> constructor accepts a URL. A
  request body is kept as the value whose JSON text is sent.
\<close>

record response =
  httpStatus :: nat
  json :: "jsvalue option"

record platform =
  REST_API_BASE_URL :: string
  WEBSOCKET_API_URL :: string
  JSON_parse :: "string \<Rightarrow> jsvalue option"
  JSON_stringify :: "jsvalue \<Rightarrow> string"
  fetch :: "string \<Rightarrow> fetchOptions \<Rightarrow> response option"
  encodeURIComponent :: "string \<Rightarrow> string"
  urlAccepted :: "string \<Rightarrow> bool"

text \<open>
  Lines 20 to 27 of \<^verbatim>\<open>request\<close>: the caller's body, parsed when it is a string, and
  \<^verbatim>\<open>{}\<close> when there is none or it does not parse.
\<close>

definition requestBody :: "platform \<Rightarrow> fetchOptions \<Rightarrow> jsvalue" where
  "requestBody p options =
     (case body options of
        None \<Rightarrow> JObj Map.empty
      | Some b \<Rightarrow>
          if truthy b then
            (case b of
               JStr s \<Rightarrow> (case JSON_parse p s of Some v \<Rightarrow> v | None \<Rightarrow> JObj Map.empty)
             | _ \<Rightarrow> b)
          else JObj Map.empty)"

text \<open>
  Lines 28 to 30: \<^verbatim>\<open>if (token && !body.token) body.token = token\<close>. Reading a property
  of \<^verbatim>\<open>null\<close> throws, and so does, in a module, setting one on a number, a string or
  a boolean; a property set on an array is not part of its JSON text.
\<close>

definition attachToken :: "string option \<Rightarrow> jsvalue \<Rightarrow> jserror + jsvalue" where
  "attachToken token b =
     (if \<not> truthyStr token then Inr b
      else
        (case b of
           JObj m \<Rightarrow>
             (case m ''token'' of
                None \<Rightarrow> Inr (JObj (m(''token'' \<mapsto> JStr (the token))))
              | Some v \<Rightarrow>
                  if truthy v then Inr b else Inr (JObj (m(''token'' \<mapsto> JStr (the token)))))
         | JArr xs \<Rightarrow> Inr (JArr xs)
         | _ \<Rightarrow> Inl TypeError))"

text \<open>
  What \<^verbatim>\<open>fetch(url, config)\<close> does before it sends anything, by the Fetch standard. The
  method is \<^verbatim>\<open>GET\<close> when \<open>config\<close> names none, and a name that is one of the standard
  methods in other letter case is put in upper case. A request with method \<^verbatim>\<open>GET\<close> or
  \<^verbatim>\<open>HEAD\<close> must not have a body: \<^verbatim>\<open>fetch\<close> then throws a \<^verbatim>\<open>TypeError\<close> and sends
  nothing.
\<close>

definition toUpperCase :: "string \<Rightarrow> string" where
  "toUpperCase s =
     map (\<lambda>c. case map_of (zip ''abcdefghijklmnopqrstuvwxyz'' ''ABCDEFGHIJKLMNOPQRSTUVWXYZ'') c of
                Some u \<Rightarrow> u
              | None \<Rightarrow> c) s"

definition methodOf :: "fetchOptions \<Rightarrow> string" where
  "methodOf config =
     (case http_method config of
        None \<Rightarrow> ''GET''
      | Some m \<Rightarrow>
          if toUpperCase m \<in> {''DELETE'', ''GET'', ''HEAD'', ''OPTIONS'', ''POST'', ''PUT''}
          then toUpperCase m else m)"

definition bodyRefused :: "fetchOptions \<Rightarrow> bool" where
  "bodyRefused config = (body config \<noteq> None \<and> methodOf config \<in> {''GET'', ''HEAD''})"

text \<open>
  \<^verbatim>\<open>request(endpoint, options)\<close>. What \<^verbatim>\<open>fetch\<close> throws is caught, printed and thrown
  again, so \<open>request\<close> fails with it.
\<close>

definition request ::
  "platform \<Rightarrow> string \<Rightarrow> fetchOptions \<Rightarrow> browser \<Rightarrow> (jserror + response) \<times> browser" where
  "request p endpoint options w =
     (case attachToken (getToken (localStorage w)) (requestBody p options) of
        Inl e \<Rightarrow> (Inl e, w)
      | Inr b \<Rightarrow>
          (let url = REST_API_BASE_URL p @ endpoint;
               config = options\<lparr>headers := [''Content-Type'' \<mapsto> ''application/json''] ++ headers options,
                                body := Some b\<rparr>
           in if bodyRefused config then (Inl TypeError, w)
              else
                (let w1 = w\<lparr>fetched := fetched w @ [(url, config)]\<rparr>
                 in case fetch p url config of
                      None \<Rightarrow> (Inl NetworkError, w1)
                    | Some r \<Rightarrow>
                        if httpStatus r = 401 then
                          (Inr r, w1\<lparr>localStorage := clearToken (localStorage w1),
                                     pathname := (if pathname w1 \<noteq> ''/login'' then ''/login''
                                                  else pathname w1)\<rparr>)
                        else (Inr r, w1))))"

definition ok :: "response \<Rightarrow> bool" where
  "ok r = (200 \<le> httpStatus r \<and> httpStatus r \<le> 299)"

text \<open>
  \<^verbatim>\<open>const error = await response.json().catch(() => ({ error: c }))\<close> followed by
  \<^verbatim>\<open>throw new Error(error.error || d)\<close>.
\<close>

definition failure :: "response \<Rightarrow> string \<Rightarrow> string \<Rightarrow> jserror" where
  "failure r c d =
     (case json r of
        None \<Rightarrow> Error (JStr c)
      | Some JNull \<Rightarrow> TypeError
      | Some (JObj m) \<Rightarrow>
          (case m ''error'' of
             None \<Rightarrow> Error (JStr d)
           | Some v \<Rightarrow> if truthy v then Error v else Error (JStr d))
      | Some _ \<Rightarrow> Error (JStr d))"

text \<open>What both REST functions do with the response of \<open>request\<close>.\<close>

definition answer :: "(jserror + response) \<times> browser \<Rightarrow> string \<Rightarrow> string \<Rightarrow> (jserror + jsvalue) \<times> browser" where
  "answer res c d =
     (case res of
        (Inl e, w) \<Rightarrow> (Inl e, w)
      | (Inr r, w) \<Rightarrow>
          if \<not> ok r then (Inl (failure r c d), w)
          else (case json r of None \<Rightarrow> (Inl SyntaxError, w) | Some v \<Rightarrow> (Inr v, w)))"

definition requestUploadFile ::
  "platform \<Rightarrow> string \<Rightarrow> string \<Rightarrow> browser \<Rightarrow> (jserror + jsvalue) \<times> browser" where
  "requestUploadFile p filename contentType w =
     answer
       (request p ''/upload-file''
          \<lparr>http_method = Some ''POST'', headers = Map.empty,
           body = Some (JStr (JSON_stringify p
                    (JObj [''filename'' \<mapsto> JStr filename, ''content_type'' \<mapsto> JStr contentType])))\<rparr> w)
       ''Upload request failed'' ''Failed to request upload''"

definition getFileMetadata :: "platform \<Rightarrow> string \<Rightarrow> browser \<Rightarrow> (jserror + jsvalue) \<times> browser" where
  "getFileMetadata p fid w =
     answer
       (request p (''/metadata/'' @ fid) \<lparr>http_method = Some ''GET'', headers = Map.empty, body = None\<rparr> w)
       ''Failed to fetch metadata'' ''Failed to fetch metadata''"

text \<open>
  \<^verbatim>\<open>uploadToS3(presignedUrl, file, onProgress)\<close>. The transfer is what the
  \<^verbatim>\<open>XMLHttpRequest\<close> reports: its upload progress events in order, then either a
  \<^verbatim>\<open>load\<close> event with the response status or an \<^verbatim>\<open>error\<close> event. The callback
  \<open>onProgress\<close> acts on a state of the caller's. The error for a status other than 200
  carries the status in its message, which is left out here.
\<close>

record progressEvent =
  lengthComputable :: bool
  loaded :: nat
  total_bytes :: nat

datatype xhrOutcome = Load nat | NetworkFailure

definition progressListener :: "(jsnumber \<Rightarrow> 's \<Rightarrow> 's) option \<Rightarrow> progressEvent \<Rightarrow> 's \<Rightarrow> 's" where
  "progressListener onProgress e s =
     (case onProgress of
        Some f \<Rightarrow>
          if lengthComputable e then f (jsTimes (jsDivide (loaded e) (total_bytes e)) 100) s else s
      | None \<Rightarrow> s)"

definition uploadToS3 ::
  "(jsnumber \<Rightarrow> 's \<Rightarrow> 's) option \<Rightarrow> progressEvent list \<Rightarrow> xhrOutcome \<Rightarrow> 's \<Rightarrow>
   (jserror + unit) \<times> 's" where
  "uploadToS3 onProgress events outcome s =
     (let s1 = fold (progressListener onProgress) events s
      in case outcome of
           Load st \<Rightarrow>
             if st = 200 then (Inr (), s1)
             else (Inl (Error (JStr ''Upload failed with status'')), s1)
         | NetworkFailure \<Rightarrow> (Inl (Error (JStr ''Upload failed'')), s1))"

section \<open>The push channel of the fetch-based client (birdtag, services/websocket.js)\<close>

text \<open>
  The service object together with what it acts on. Every \<^verbatim>\<open>WebSocket\<close> the service
  constructs is kept in \<open>sockets\<close>, and \<open>ws\<close> holds the index of the one \<^verbatim>\<open>this.ws\<close>
  points to (\<open>None\<close> for \<^verbatim>\<open>null\<close>). A socket remembers the callbacks its event handlers
  closed over. \<open>timers\<close> are the pending \<^verbatim>\<open>setTimeout\<close> callbacks, each with its delay
  and the callbacks it closed over. \<open>listeners\<close> is the \<^verbatim>\<open>Map\<close> of listeners in insertion
  order; its keys \<^verbatim>\<open>Date.now() + Math.random()\<close> are taken to be fresh, here a counter.
  Callbacks are named by values of a type \<open>'cb\<close>; \<open>calls\<close> lists their invocations in
  order, and \<open>console\<close> what was printed. A callback acts on the page, not on the service.
\<close>

datatype readyState = CONNECTING | OPEN | CLOSING | CLOSED

record 'cb handlers =
  onMessage :: "'cb option"
  onError :: "'cb option"
  onClose :: "'cb option"

record 'cb socket =
  url :: string
  readyState :: readyState
  captured :: "'cb handlers"

record 'cb timer =
  delay :: nat
  timerCaptured :: "'cb handlers"

record 'cb service =
  ws :: "nat option"
  reconnectAttempts :: nat
  listeners :: "(nat \<times> 'cb) list"
  fileId :: "string option"
  sockets :: "'cb socket list"
  timers :: "'cb timer list"
  page :: browser
  nextKey :: nat
  calls :: "('cb \<times> arg) list"
  console :: "string list"

definition maxReconnectAttempts :: nat where
  "maxReconnectAttempts = 5"

definition reconnectDelay :: nat where
  "reconnectDelay = 1000"

text \<open>The service as its constructor leaves it.\<close>

definition constructed :: "browser \<Rightarrow> 'cb service" where
  "constructed w =
     \<lparr>ws = None, reconnectAttempts = 0, listeners = [], fileId = None, sockets = [],
      timers = [], page = w, nextKey = 0, calls = [], console = []\<rparr>"

definition consoleLog :: "string \<Rightarrow> 'cb service \<Rightarrow> 'cb service" where
  "consoleLog msg s = s\<lparr>console := console s @ [msg]\<rparr>"

text \<open>\<^verbatim>\<open>if (f) f(a)\<close>.\<close>

definition invoke :: "'cb option \<Rightarrow> arg \<Rightarrow> 'cb service \<Rightarrow> 'cb service" where
  "invoke f a s = (case f of None \<Rightarrow> s | Some g \<Rightarrow> s\<lparr>calls := calls s @ [(g, a)]\<rparr>)"

definition socketIs :: "'cb service \<Rightarrow> nat \<Rightarrow> readyState set \<Rightarrow> bool" where
  "socketIs s i rs = (i < length (sockets s) \<and> readyState (sockets s ! i) \<in> rs)"

text \<open>\<^verbatim>\<open>this.ws && this.ws.readyState === WebSocket.OPEN\<close>.\<close>

definition isConnected :: "'cb service \<Rightarrow> bool" where
  "isConnected s = (case ws s of None \<Rightarrow> False | Some i \<Rightarrow> socketIs s i {OPEN})"

text \<open>A file id inside a template string or \<^verbatim>\<open>encodeURIComponent\<close>: \<^verbatim>\<open>null\<close> reads "null".\<close>

definition asString :: "string option \<Rightarrow> string" where
  "asString v = (case v of None \<Rightarrow> ''null'' | Some s \<Rightarrow> s)"

definition connect ::
  "platform \<Rightarrow> string option \<Rightarrow> 'cb handlers \<Rightarrow> 'cb service \<Rightarrow> 'cb service" where
  "connect p fid h s =
     (if isConnected s then consoleLog ''WebSocket already connected'' s
      else
        (let s1 = s\<lparr>fileId := fid\<rparr>;
             token = getToken (localStorage (page s1))
         in if \<not> truthyStr token then
              invoke (onError h) (ErrorArg (Error (JStr ''No authentication token'')))
                (consoleLog ''No token available for WebSocket connection'' s1)
            else
              (let u = WEBSOCKET_API_URL p @ ''?token='' @ encodeURIComponent p (the token)
                         @ ''&file_id='' @ encodeURIComponent p (asString fid)
               in if urlAccepted p u then
                    s1\<lparr>sockets := sockets s1 @ [\<lparr>url = u, readyState = CONNECTING, captured = h\<rparr>],
                        ws := Some (length (sockets s1))\<rparr>
                  else
                    invoke (onError h) (ErrorArg SyntaxError)
                      (consoleLog ''Failed to create WebSocket connection:'' s1))))"

definition addMessageListener :: "'cb \<Rightarrow> 'cb service \<Rightarrow> 'cb service" where
  "addMessageListener listener s =
     s\<lparr>listeners := listeners s @ [(nextKey s, listener)], nextKey := Suc (nextKey s)\<rparr>"

text \<open>
  One turn of the loop of \<^verbatim>\<open>notifyListeners\<close>: the listener is called, and what it throws
  is caught and printed. \<open>throws l a\<close> says whether callback \<open>l\<close> throws when called with
  \<open>a\<close>.
\<close>

definition notifyOne ::
  "('cb \<Rightarrow> arg \<Rightarrow> bool) \<Rightarrow> jsvalue \<Rightarrow> 'cb \<Rightarrow> 'cb service \<Rightarrow> 'cb service" where
  "notifyOne throws d listener s =
     (let s1 = s\<lparr>calls := calls s @ [(listener, Data d)]\<rparr>
      in if throws listener (Data d) then consoleLog ''Error in WebSocket listener:'' s1 else s1)"

definition notifyListeners ::
  "('cb \<Rightarrow> arg \<Rightarrow> bool) \<Rightarrow> jsvalue \<Rightarrow> 'cb service \<Rightarrow> 'cb service" where
  "notifyListeners throws d s = fold (notifyOne throws d) (map snd (listeners s)) s"

text \<open>The four event handlers that \<open>connect\<close> installs on socket \<open>i\<close>.\<close>

definition onopen :: "nat \<Rightarrow> 'cb service \<Rightarrow> 'cb service" where
  "onopen i s =
     (let s1 = (consoleLog ''WebSocket connected'' s)\<lparr>reconnectAttempts := 0\<rparr>
      in case onMessage (captured (sockets s ! i)) of
           None \<Rightarrow> s1
         | Some l \<Rightarrow> addMessageListener l s1)"

definition onmessage ::
  "platform \<Rightarrow> ('cb \<Rightarrow> arg \<Rightarrow> bool) \<Rightarrow> string \<Rightarrow> 'cb service \<Rightarrow> 'cb service" where
  "onmessage p throws raw s =
     (case JSON_parse p raw of
        Some d \<Rightarrow> notifyListeners throws d s
      | None \<Rightarrow> consoleLog ''Failed to parse WebSocket message:'' s)"

definition onerror :: "nat \<Rightarrow> 'cb service \<Rightarrow> 'cb service" where
  "onerror i s =
     invoke (onError (captured (sockets s ! i))) (ErrorArg NetworkError)
       (consoleLog ''WebSocket error:'' s)"

definition onclose :: "nat \<Rightarrow> nat \<Rightarrow> 'cb service \<Rightarrow> 'cb service" where
  "onclose i code s =
     (let h = captured (sockets s ! i);
          s1 = (consoleLog ''WebSocket closed'' s)\<lparr>ws := None\<rparr>
      in if code \<noteq> 1000 \<and> reconnectAttempts s1 < maxReconnectAttempts then
           (let s2 = s1\<lparr>reconnectAttempts := Suc (reconnectAttempts s1)\<rparr>
            in s2\<lparr>timers := timers s2 @
                   [\<lparr>delay = reconnectDelay * reconnectAttempts s2, timerCaptured = h\<rparr>]\<rparr>)
         else invoke (onClose h) (CloseEvent code) s1)"

text \<open>The callback given to \<^verbatim>\<open>setTimeout\<close> in \<open>onclose\<close>.\<close>

definition reconnect :: "platform \<Rightarrow> 'cb handlers \<Rightarrow> 'cb service \<Rightarrow> 'cb service" where
  "reconnect p h s = connect p (fileId s) h (consoleLog ''Attempting to reconnect'' s)"

definition setReadyState :: "nat \<Rightarrow> readyState \<Rightarrow> 'cb service \<Rightarrow> 'cb service" where
  "setReadyState i r s = s\<lparr>sockets := (sockets s)[i := (sockets s ! i)\<lparr>readyState := r\<rparr>]\<rparr>"

text \<open>
  \<^verbatim>\<open>disconnect()\<close>. \<^verbatim>\<open>close(1000, ...)\<close> moves a connecting or open socket to
  \<^verbatim>\<open>CLOSING\<close> and does nothing to one that is closing or closed.
\<close>

definition disconnect :: "'cb service \<Rightarrow> 'cb service" where
  "disconnect s =
     (let s1 = (case ws s of
                  None \<Rightarrow> s
                | Some i \<Rightarrow>
                    (if socketIs s i {CONNECTING, OPEN} then setReadyState i CLOSING s
                     else s)\<lparr>ws := None\<rparr>)
      in s1\<lparr>listeners := [], fileId := None\<rparr>)"

text \<open>
  What can happen to the service: a call of \<open>connect\<close> or \<open>disconnect\<close> by the page, an
  event of socket \<open>i\<close> delivered by the browser (which has set the socket's
  \<^verbatim>\<open>readyState\<close> before the handler runs), or a pending timer firing. An event that the
  browser cannot deliver in the socket's state changes nothing.
\<close>

datatype 'cb event =
    Connect "string option" "'cb handlers"
  | Opened nat
  | Message nat string
  | Errored nat
  | Closed nat nat
  | TimerFired nat
  | Disconnect

fun step ::
  "platform \<Rightarrow> ('cb \<Rightarrow> arg \<Rightarrow> bool) \<Rightarrow> 'cb event \<Rightarrow> 'cb service \<Rightarrow> 'cb service" where
  "step p throws (Connect fid h) s = connect p fid h s"
| "step p throws (Opened i) s =
     (if socketIs s i {CONNECTING} then onopen i (setReadyState i OPEN s) else s)"
| "step p throws (Message i raw) s =
     (if socketIs s i {OPEN, CLOSING} then onmessage p throws raw s else s)"
| "step p throws (Errored i) s =
     (if socketIs s i {CONNECTING, OPEN, CLOSING} then onerror i s else s)"
| "step p throws (Closed i code) s =
     (if socketIs s i {CONNECTING, OPEN, CLOSING} then onclose i code (setReadyState i CLOSED s)
      else s)"
| "step p throws (TimerFired j) s =
     (if j < length (timers s) then
        reconnect p (timerCaptured (timers s ! j))
          (s\<lparr>timers := take j (timers s) @ drop (Suc j) (timers s)\<rparr>)
      else s)"
| "step p throws Disconnect s = disconnect s"

definition run ::
  "platform \<Rightarrow> ('cb \<Rightarrow> arg \<Rightarrow> bool) \<Rightarrow> 'cb event list \<Rightarrow> 'cb service \<Rightarrow> 'cb service" where
  "run p throws es s = fold (step p throws) es s"

section \<open>Credentials of the axios-based client (bird-tag, services/authService.js)\<close>

text \<open>
  \<^verbatim>\<open>decodeJWT\<close> is base64 and JSON decoding by the platform and is taken as given:
  \<open>None\<close> is its \<^verbatim>\<open>null\<close> for a token that does not decode. Of the payload, the claims
  the code reads are kept, \<open>exp\<close> as the JSON number it is in a token, each \<open>None\<close> when
  the claim is absent.
\<close>

record jwtPayload =
  exp_claim :: "rat option"
  sub_claim :: "string option"
  email_claim :: "string option"
  name_claim :: "string option"
  cognito_username :: "string option"

record user =
  userId :: "string option"
  email :: "string option"
  name :: "string option"

record userSession =
  idToken :: string
  accessToken :: string
  refreshToken :: string
  user :: user

text \<open>
  The Cognito SDK reports through callbacks \<^verbatim>\<open>(err, result)\<close>: \<open>Failure\<close> is a call
  with an error, \<open>Success r\<close> a call with a result. A function of the SDK can also
  throw instead: \<open>Throws e\<close> for the two that take a callback, \<open>Inl e\<close> for
  \<^verbatim>\<open>getCurrentUser()\<close> and \<^verbatim>\<open>session.isValid()\<close>. The SDK is taken to call back
  before its function returns, as it does for a session it has cached, so that what is
  thrown inside a callback leaves the function that was given the callback.
\<close>

datatype 'a callback = Throws jserror | Failure | Success 'a

record cognitoSession =
  isValid :: "jserror + bool"
  idJwt :: string
  accessJwt :: string
  refreshJwt :: string

record cognitoUser =
  getSession :: "cognitoSession callback"
  getUserAttributes :: "(string \<times> string) list callback"

record authEnv =
  getCurrentUser :: "jserror + cognitoUser option"
  window :: browser
  decodeJWT :: "string \<Rightarrow> jwtPayload option"
  now :: rat

text \<open>\<^verbatim>\<open>tokenPayload.exp && tokenPayload.exp < now\<close>, with \<open>n\<close> the current time in
  seconds: a claim that is absent or zero is falsy.\<close>

definition tokenExpired :: "jwtPayload \<Rightarrow> rat \<Rightarrow> bool" where
  "tokenExpired tokenPayload n =
     (case exp_claim tokenPayload of None \<Rightarrow> False | Some e \<Rightarrow> e \<noteq> 0 \<and> e < n)"

text \<open>
  The \<^verbatim>\<open>user\<close> object built from a payload. The spread of the payload at its end
  overrides \<^verbatim>\<open>name\<close> by the payload's own \<^verbatim>\<open>name\<close> when it has one.
\<close>

definition oauthUser :: "jwtPayload \<Rightarrow> user" where
  "oauthUser tokenPayload =
     \<lparr>userId = orElse (sub_claim tokenPayload) (cognito_username tokenPayload),
      email = email_claim tokenPayload,
      name =
        (case name_claim tokenPayload of
           Some n \<Rightarrow> Some n
         | None \<Rightarrow>
             orElse (cognito_username tokenPayload)
               (orElse (email_claim tokenPayload) (Some ''User'')))\<rparr>"

definition getOAuthSession :: "authEnv \<Rightarrow> jserror + userSession" where
  "getOAuthSession env =
     (let idTok = localStorage (window env) ''idToken'';
          accessTok = localStorage (window env) ''accessToken'';
          refreshTok = localStorage (window env) ''refreshToken''
      in if \<not> truthyStr idTok \<or> \<not> truthyStr accessTok then Inl (Error (JStr ''No user found''))
         else
           (case decodeJWT env (the idTok) of
              None \<Rightarrow> Inl (Error (JStr ''Invalid token''))
            | Some tokenPayload \<Rightarrow>
                if tokenExpired tokenPayload (now env) then Inl (Error (JStr ''Token expired''))
                else
                  Inr \<lparr>idToken = the idTok, accessToken = the accessTok,
                       refreshToken = (if truthyStr refreshTok then the refreshTok else []),
                       user = oauthUser tokenPayload\<rparr>))"

text \<open>The attribute list as the object \<^verbatim>\<open>userAttributes\<close>: a later entry wins.\<close>

definition userAttributes :: "(string \<times> string) list \<Rightarrow> string \<rightharpoonup> string" where
  "userAttributes attributes = map_of (rev attributes)"

definition cognitoUserOf :: "(string \<rightharpoonup> string) \<Rightarrow> user" where
  "cognitoUserOf ua =
     \<lparr>userId = (case ua ''userId'' of Some v \<Rightarrow> Some v | None \<Rightarrow> ua ''sub''),
      email = ua ''email'',
      name = (case ua ''name'' of Some n \<Rightarrow> Some n | None \<Rightarrow> orElse (ua ''name'') (ua ''email''))\<rparr>"

text \<open>
  \<^verbatim>\<open>getUserSession()\<close>. Its body is the executor of a promise: what is thrown there,
  by \<^verbatim>\<open>getCurrentUser\<close>, by \<^verbatim>\<open>getSession\<close> or inside the callbacks, rejects the
  promise with what was thrown, and the stored tokens are not asked. They are asked when
  there is no Cognito user and when a callback is called with an error or with a session
  that is not valid.
\<close>

definition getUserSession :: "authEnv \<Rightarrow> jserror + userSession" where
  "getUserSession env =
     (case getCurrentUser env of
        Inl e \<Rightarrow> Inl e
      | Inr None \<Rightarrow> getOAuthSession env
      | Inr (Some cognitoUser) \<Rightarrow>
          (case getSession cognitoUser of
             Throws e \<Rightarrow> Inl e
           | Failure \<Rightarrow> getOAuthSession env
           | Success session \<Rightarrow>
               (case isValid session of
                  Inl e \<Rightarrow> Inl e
                | Inr valid \<Rightarrow>
                    if \<not> valid then getOAuthSession env
                    else
                      (case getUserAttributes cognitoUser of
                         Throws e \<Rightarrow> Inl e
                       | Failure \<Rightarrow> getOAuthSession env
                       | Success attributes \<Rightarrow>
                           Inr \<lparr>idToken = idJwt session, accessToken = accessJwt session,
                                refreshToken = refreshJwt session,
                                user = cognitoUserOf (userAttributes attributes)\<rparr>))))"

definition getStoredToken :: "authEnv \<Rightarrow> string option" where
  "getStoredToken env = localStorage (window env) ''idToken''"

text \<open>
  The expiry test of the first client, \<^verbatim>\<open>isTokenExpired(token)\<close> of
  \<^verbatim>\<open>birdtag/src/utils/auth.js\<close>, whose \<^verbatim>\<open>parseJWT\<close> is the same decoding as
  \<^verbatim>\<open>decodeJWT\<close>: a token that does not decode or has no or a zero \<^verbatim>\<open>exp\<close> counts as
  expired. \<open>ms\<close> is \<^verbatim>\<open>Date.now()\<close>, in milliseconds.
\<close>

definition isTokenExpired :: "(string \<Rightarrow> jwtPayload option) \<Rightarrow> rat \<Rightarrow> string \<Rightarrow> bool" where
  "isTokenExpired parseJWT ms token =
     (case parseJWT token of
        None \<Rightarrow> True
      | Some payload \<Rightarrow>
          (case exp_claim payload of
             None \<Rightarrow> True
           | Some e \<Rightarrow> if e = 0 then True else e * 1000 \<le> ms))"

section \<open>The byte transfer of the axios-based client (bird-tag, services/apiService.js)\<close>

text \<open>
  \<^verbatim>\<open>uploadToS3(presignUrl, file, onProgress)\<close> awaits \<^verbatim>\<open>axios.put\<close>. Of axios, the
  progress events it hands to \<^verbatim>\<open>onUploadProgress\<close> and the settling of its promise are
  taken as given: \<open>ax_total\<close> is \<open>None\<close> when the event carries no total
  (\<^verbatim>\<open>undefined\<close>), and \<open>rejected\<close> is the error of a rejected promise.
\<close>

record axiosProgressEvent =
  ax_loaded :: nat
  ax_total :: "nat option"

definition percentCompleted :: "axiosProgressEvent \<Rightarrow> jsnumber" where
  "percentCompleted progressEvent =
     (case ax_total progressEvent of
        None \<Rightarrow> NaN
      | Some t \<Rightarrow> Math_round (jsDivide (ax_loaded progressEvent * 100) t))"

definition onUploadProgress ::
  "(jsnumber \<Rightarrow> 's \<Rightarrow> 's) option \<Rightarrow> axiosProgressEvent \<Rightarrow> 's \<Rightarrow> 's" where
  "onUploadProgress onProgress progressEvent s =
     (case onProgress of Some f \<Rightarrow> f (percentCompleted progressEvent) s | None \<Rightarrow> s)"

definition apiService_uploadToS3 ::
  "(jsnumber \<Rightarrow> 's \<Rightarrow> 's) option \<Rightarrow> axiosProgressEvent list \<Rightarrow> jserror option \<Rightarrow> 's \<Rightarrow>
   (jserror + unit) \<times> 's" where
  "apiService_uploadToS3 onProgress events rejected s =
     (let s1 = fold (onUploadProgress onProgress) events s
      in case rejected of None \<Rightarrow> (Inr (), s1) | Some e \<Rightarrow> (Inl e, s1))"

section \<open>The push channel of the axios-based client (bird-tag, services/websocketService.js)\<close>

text \<open>
  The second \<^verbatim>\<open>WebSocketService\<close>. Its \<open>connect\<close> is an \<^verbatim>\<open>async\<close> function that
  suspends at \<^verbatim>\<open>await authService.getUserSession()\<close>: the part before the \<^verbatim>\<open>await\<close>
  runs in the caller's turn, and the rest in a later one, so \<open>awaiting\<close> holds the file
  ids of the calls that are suspended. A socket and a timer remember the \<open>fileId\<close>
  their closures captured. The fields are named as in the class, with \<open>svc\<close> in front
  where the first service has a field of that name.
\<close>

record svcSocket =
  svc_url :: string
  svc_readyState :: readyState
  svc_fileId :: string

record 'cb websocketService =
  svc_ws :: "nat option"
  svc_reconnectAttempts :: nat
  isConnecting :: bool
  messageHandlers :: "'cb list"
  connectionHandlers :: "'cb list"
  svc_sockets :: "svcSocket list"
  svc_timers :: "(nat \<times> string) list"
  awaiting :: "string list"
  auth :: authEnv
  websocketApiUrl :: string
  svc_calls :: "('cb \<times> arg) list"
  svc_console :: "string list"

definition svc_maxReconnectAttempts :: nat where
  "svc_maxReconnectAttempts = 5"

definition svc_reconnectDelay :: nat where
  "svc_reconnectDelay = 3000"

definition svc_constructed :: "authEnv \<Rightarrow> string \<Rightarrow> 'cb websocketService" where
  "svc_constructed env u =
     \<lparr>svc_ws = None, svc_reconnectAttempts = 0, isConnecting = False, messageHandlers = [],
      connectionHandlers = [], svc_sockets = [], svc_timers = [], awaiting = [], auth = env,
      websocketApiUrl = u, svc_calls = [], svc_console = []\<rparr>"

definition svc_log :: "string \<Rightarrow> 'cb websocketService \<Rightarrow> 'cb websocketService" where
  "svc_log msg s = s\<lparr>svc_console := svc_console s @ [msg]\<rparr>"

definition svc_socketIs :: "'cb websocketService \<Rightarrow> nat \<Rightarrow> readyState set \<Rightarrow> bool" where
  "svc_socketIs s i rs = (i < length (svc_sockets s) \<and> svc_readyState (svc_sockets s ! i) \<in> rs)"

text \<open>\<^verbatim>\<open>this.ws?.readyState === WebSocket.OPEN\<close>.\<close>

definition svc_isOpen :: "'cb websocketService \<Rightarrow> bool" where
  "svc_isOpen s = (case svc_ws s of None \<Rightarrow> False | Some i \<Rightarrow> svc_socketIs s i {OPEN})"

text \<open>The loops of \<^verbatim>\<open>notifyMessageHandlers\<close> and \<^verbatim>\<open>notifyConnectionHandlers\<close>.\<close>

definition svc_notifyOne ::
  "('cb \<Rightarrow> arg \<Rightarrow> bool) \<Rightarrow> string \<Rightarrow> arg \<Rightarrow> 'cb \<Rightarrow> 'cb websocketService \<Rightarrow> 'cb websocketService" where
  "svc_notifyOne throws msg a handler s =
     (let s1 = s\<lparr>svc_calls := svc_calls s @ [(handler, a)]\<rparr>
      in if throws handler a then svc_log msg s1 else s1)"

definition notifyMessageHandlers ::
  "('cb \<Rightarrow> arg \<Rightarrow> bool) \<Rightarrow> jsvalue \<Rightarrow> 'cb websocketService \<Rightarrow> 'cb websocketService" where
  "notifyMessageHandlers throws d s =
     fold (svc_notifyOne throws ''Message handler error:'' (Data d)) (messageHandlers s) s"

definition notifyConnectionHandlers ::
  "('cb \<Rightarrow> arg \<Rightarrow> bool) \<Rightarrow> arg \<Rightarrow> 'cb websocketService \<Rightarrow> 'cb websocketService" where
  "notifyConnectionHandlers throws st s =
     fold (svc_notifyOne throws ''Connection handler error:'' st) (connectionHandlers s) s"

text \<open>\<open>connect\<close> up to its \<^verbatim>\<open>await\<close>.\<close>

definition svc_connect :: "string \<Rightarrow> 'cb websocketService \<Rightarrow> 'cb websocketService" where
  "svc_connect fid s =
     (if svc_isOpen s then svc_log ''WebSocket already connected'' s
      else if isConnecting s then svc_log ''WebSocket connection in progress'' s
      else s\<lparr>isConnecting := True, awaiting := awaiting s @ [fid]\<rparr>)"

text \<open>
  \<open>connect\<close> after its \<^verbatim>\<open>await\<close>, for the suspended call with file id \<open>fid\<close>. The token is
  the session's id token, or the stored one when \<open>getUserSession\<close> rejects. A missing
  token or URL, or a URL the \<^verbatim>\<open>WebSocket\<close> constructor refuses, is thrown, caught,
  printed and thrown again, which rejects the promise of \<open>connect\<close>: the result is that
  error.
\<close>

definition svc_token :: "authEnv \<Rightarrow> string" where
  "svc_token env =
     (case getUserSession env of
        Inr session \<Rightarrow> idToken session
      | Inl e \<Rightarrow> (if truthyStr (getStoredToken env) then the (getStoredToken env) else []))"

definition cleanUrl :: "string \<Rightarrow> string" where
  "cleanUrl baseUrl = (if baseUrl \<noteq> [] \<and> last baseUrl = CHR ''/'' then butlast baseUrl else baseUrl)"

definition svc_failed :: "jserror \<Rightarrow> 'cb websocketService \<Rightarrow> (jserror + unit) \<times> 'cb websocketService" where
  "svc_failed e s = (Inl e, (svc_log ''Failed to connect WebSocket:'' s)\<lparr>isConnecting := False\<rparr>)"

definition svc_connected ::
  "platform \<Rightarrow> string \<Rightarrow> 'cb websocketService \<Rightarrow> (jserror + unit) \<times> 'cb websocketService" where
  "svc_connected p fid s =
     (let token = svc_token (auth s)
      in if token = [] then svc_failed (Error (JStr ''No authentication token available'')) s
         else if websocketApiUrl s = [] then
           svc_failed (Error (JStr ''WebSocket API URL is not configured'')) s
         else
           (let wsUrl = cleanUrl (websocketApiUrl s) @ ''?token='' @ encodeURIComponent p token
                          @ (if fid \<noteq> [] then ''&file_id='' @ fid else [])
            in if urlAccepted p wsUrl then
                 (Inr (),
                  (svc_log ''Token length:'' (svc_log ''Connecting to WebSocket:'' s))
                    \<lparr>svc_sockets := svc_sockets s @
                       [\<lparr>svc_url = wsUrl, svc_readyState = CONNECTING, svc_fileId = fid\<rparr>],
                     svc_ws := Some (length (svc_sockets s))\<rparr>)
               else
                 svc_failed SyntaxError
                   (svc_log ''Token length:'' (svc_log ''Connecting to WebSocket:'' s))))"

text \<open>The event handlers installed on socket \<open>i\<close>.\<close>

definition svc_onopen :: "('cb \<Rightarrow> arg \<Rightarrow> bool) \<Rightarrow> nat \<Rightarrow> 'cb websocketService \<Rightarrow> 'cb websocketService" where
  "svc_onopen throws i s =
     notifyConnectionHandlers throws (Status ''connected'' None)
       ((svc_log ''WebSocket connected successfully'' s)
          \<lparr>svc_reconnectAttempts := 0, isConnecting := False\<rparr>)"

definition svc_onmessage ::
  "platform \<Rightarrow> ('cb \<Rightarrow> arg \<Rightarrow> bool) \<Rightarrow> string \<Rightarrow> 'cb websocketService \<Rightarrow> 'cb websocketService" where
  "svc_onmessage p throws raw s =
     (case JSON_parse p raw of
        Some d \<Rightarrow> notifyMessageHandlers throws d (svc_log ''WebSocket message received:'' s)
      | None \<Rightarrow> svc_log ''Raw message:'' (svc_log ''Failed to parse WebSocket message:'' s))"

definition svc_onerror :: "('cb \<Rightarrow> arg \<Rightarrow> bool) \<Rightarrow> nat \<Rightarrow> 'cb websocketService \<Rightarrow> 'cb websocketService" where
  "svc_onerror throws i s =
     notifyConnectionHandlers throws (Status ''error'' None)
       ((svc_log ''WebSocket URL:'' (svc_log ''WebSocket readyState:'' (svc_log ''WebSocket error:'' s)))
          \<lparr>isConnecting := False\<rparr>)"

definition svc_onclose ::
  "('cb \<Rightarrow> arg \<Rightarrow> bool) \<Rightarrow> nat \<Rightarrow> nat \<Rightarrow> 'cb websocketService \<Rightarrow> 'cb websocketService" where
  "svc_onclose throws i code s =
     (let s1 = notifyConnectionHandlers throws (Status ''closed'' (Some code))
                 ((svc_log ''Was clean:'' (svc_log ''Close reason:'' (svc_log ''Close code:''
                     (svc_log ''WebSocket closed'' s))))\<lparr>isConnecting := False\<rparr>)
      in if code \<noteq> 1000 \<and> svc_reconnectAttempts s1 < svc_maxReconnectAttempts then
           (svc_log ''Attempting to reconnect'' s1)
             \<lparr>svc_reconnectAttempts := Suc (svc_reconnectAttempts s1),
              svc_timers := svc_timers s1 @ [(svc_reconnectDelay, svc_fileId (svc_sockets s ! i))]\<rparr>
         else if code = 1000 then svc_log ''WebSocket closed normally (no reconnect)'' s1
         else svc_log ''Max reconnection attempts reached or connection closed intentionally'' s1)"

definition svc_setReadyState :: "nat \<Rightarrow> readyState \<Rightarrow> 'cb websocketService \<Rightarrow> 'cb websocketService" where
  "svc_setReadyState i r s =
     s\<lparr>svc_sockets := (svc_sockets s)[i := (svc_sockets s ! i)\<lparr>svc_readyState := r\<rparr>]\<rparr>"

definition svc_disconnect :: "'cb websocketService \<Rightarrow> 'cb websocketService" where
  "svc_disconnect s =
     (case svc_ws s of
        None \<Rightarrow> s
      | Some i \<Rightarrow>
          (if svc_socketIs s i {CONNECTING, OPEN}
           then svc_setReadyState i CLOSING (s\<lparr>svc_reconnectAttempts := svc_maxReconnectAttempts\<rparr>)
           else s\<lparr>svc_reconnectAttempts := svc_maxReconnectAttempts\<rparr>)\<lparr>svc_ws := None\<rparr>)"

text \<open>\<open>onMessage(handler)\<close> and the function it returns.\<close>

definition svc_onMessage :: "'cb \<Rightarrow> 'cb websocketService \<Rightarrow> 'cb websocketService" where
  "svc_onMessage handler s = s\<lparr>messageHandlers := messageHandlers s @ [handler]\<rparr>"

definition unsubscribe :: "'cb \<Rightarrow> 'cb websocketService \<Rightarrow> 'cb websocketService" where
  "unsubscribe handler s = s\<lparr>messageHandlers := filter (\<lambda>h. h \<noteq> handler) (messageHandlers s)\<rparr>"

definition getStatus :: "'cb websocketService \<Rightarrow> string" where
  "getStatus s =
     (case svc_ws s of
        None \<Rightarrow> ''disconnected''
      | Some i \<Rightarrow>
          (case svc_readyState (svc_sockets s ! i) of
             CONNECTING \<Rightarrow> ''connecting''
           | OPEN \<Rightarrow> ''connected''
           | CLOSING \<Rightarrow> ''closing''
           | CLOSED \<Rightarrow> ''disconnected''))"

datatype 'cb svcEvent =
    SvcConnect string
  | SvcResumed
  | SvcOpened nat
  | SvcMessage nat string
  | SvcErrored nat
  | SvcClosed nat nat
  | SvcTimerFired nat
  | SvcDisconnect
  | SvcOnMessage 'cb

fun svc_step ::
  "platform \<Rightarrow> ('cb \<Rightarrow> arg \<Rightarrow> bool) \<Rightarrow> 'cb svcEvent \<Rightarrow> 'cb websocketService \<Rightarrow> 'cb websocketService" where
  "svc_step p throws (SvcConnect fid) s = svc_connect fid s"
| "svc_step p throws SvcResumed s =
     (case awaiting s of
        [] \<Rightarrow> s
      | fid # rest \<Rightarrow> snd (svc_connected p fid (s\<lparr>awaiting := rest\<rparr>)))"
| "svc_step p throws (SvcOpened i) s =
     (if svc_socketIs s i {CONNECTING} then svc_onopen throws i (svc_setReadyState i OPEN s) else s)"
| "svc_step p throws (SvcMessage i raw) s =
     (if svc_socketIs s i {OPEN, CLOSING} then svc_onmessage p throws raw s else s)"
| "svc_step p throws (SvcErrored i) s =
     (if svc_socketIs s i {CONNECTING, OPEN, CLOSING} then svc_onerror throws i s else s)"
| "svc_step p throws (SvcClosed i code) s =
     (if svc_socketIs s i {CONNECTING, OPEN, CLOSING}
      then svc_onclose throws i code (svc_setReadyState i CLOSED s) else s)"
| "svc_step p throws (SvcTimerFired j) s =
     (if j < length (svc_timers s) then
        svc_connect (snd (svc_timers s ! j))
          (s\<lparr>svc_timers := take j (svc_timers s) @ drop (Suc j) (svc_timers s)\<rparr>)
      else s)"
| "svc_step p throws SvcDisconnect s = svc_disconnect s"
| "svc_step p throws (SvcOnMessage h) s = svc_onMessage h s"

definition svc_run ::
  "platform \<Rightarrow> ('cb \<Rightarrow> arg \<Rightarrow> bool) \<Rightarrow> 'cb svcEvent list \<Rightarrow> 'cb websocketService \<Rightarrow>
   'cb websocketService" where
  "svc_run p throws es s = fold (svc_step p throws) es s"

section \<open>The dashboard's file list (DashboardView.vue)\<close>

text \<open>
  \<^verbatim>\<open>handleWebSocketMessage(data)\<close> of the dashboard: a \<^verbatim>\<open>FILE_UPDATE\<close> message replaces
  the first listed file whose \<^verbatim>\<open>file_id\<close> is \<^verbatim>\<open>===\<close> to the message's by the spread
  of the file and the message, or is put at the front of the list (\<^verbatim>\<open>unshift\<close>) when
  there is no such file. Any other message leaves the list alone. The list \<open>files\<close> is
  \<^verbatim>\<open>files.value\<close>, and \<open>data\<close> is the object the service has parsed from the frame.
\<close>

definition handleWebSocketMessage :: "jsobject list \<Rightarrow> jsobject \<Rightarrow> jsobject list" where
  "handleWebSocketMessage files data =
     (if strictEquals (data ''type'') (Some (JStr ''FILE_UPDATE'')) then
        (case findIndex (\<lambda>f. strictEquals (f ''file_id'') (data ''file_id'')) files of
           Some existingIndex \<Rightarrow>
             files[existingIndex := spread (files ! existingIndex) data]
         | None \<Rightarrow> data # files)
      else files)"

text \<open>
  The upload queue of the dashboard. \<^verbatim>\<open>uploadFile(file)\<close> pushes an item, asks for an
  upload grant, transfers the bytes and, when both succeed, sets a two-second timer that
  removes the item; what either step throws is caught, and the item is marked. The item is
  found again by its id at every write, as the source does with \<^verbatim>\<open>find\<close>. The outcome
  of \<^verbatim>\<open>apiService.requestUpload\<close> (\<open>granted\<close>), the progress events and the outcome of
  the transfer are what the run is given; the result is every value the queue takes,
  in order, and the timer that was set, if one was: the delay given to \<^verbatim>\<open>setTimeout\<close>,
  in milliseconds, and the callback, which acts on the queue.
\<close>

record fileInfo =
  file_name :: string
  file_type :: string
  file_size :: nat

record uploadItem =
  itemId :: rat
  fileOf :: fileInfo
  progress :: jsnumber
  status :: string

record grant =
  file_id :: string
  presign_url :: string
  s3_key :: string

definition updateItem :: "rat \<Rightarrow> (uploadItem \<Rightarrow> uploadItem) \<Rightarrow> uploadItem list \<Rightarrow> uploadItem list" where
  "updateItem uploadId f q =
     (case findIndex (\<lambda>i. itemId i = uploadId) q of
        None \<Rightarrow> q
      | Some k \<Rightarrow> q[k := f (q ! k)])"

text \<open>The progress callback that \<open>uploadFile\<close> passes to \<open>uploadToS3\<close>.\<close>

definition setProgress :: "rat \<Rightarrow> jsnumber \<Rightarrow> uploadItem list \<Rightarrow> uploadItem list" where
  "setProgress uploadId v q = updateItem uploadId (\<lambda>item. item\<lparr>progress := v\<rparr>) q"

text \<open>The \<^verbatim>\<open>catch\<close> block.\<close>

definition markError :: "rat \<Rightarrow> uploadItem list \<Rightarrow> uploadItem list" where
  "markError uploadId q = updateItem uploadId (\<lambda>item. item\<lparr>status := ''error'', progress := Num 0\<rparr>) q"

text \<open>The timer's callback.\<close>

definition removeItem :: "rat \<Rightarrow> uploadItem list \<Rightarrow> uploadItem list" where
  "removeItem uploadId q = filter (\<lambda>i. itemId i \<noteq> uploadId) q"

type_synonym timeout = "nat \<times> (uploadItem list \<Rightarrow> uploadItem list)"

text \<open>A write to the queue, kept with the values before it.\<close>

definition written :: "(uploadItem list \<Rightarrow> uploadItem list) \<Rightarrow> uploadItem list list \<Rightarrow> uploadItem list list" where
  "written f h = h @ [f (last h)]"

definition uploadFile ::
  "uploadItem list \<Rightarrow> rat \<Rightarrow> fileInfo \<Rightarrow> jserror + grant \<Rightarrow> axiosProgressEvent list \<Rightarrow>
   jserror option \<Rightarrow> uploadItem list list \<times> timeout option" where
  "uploadFile q uploadId f granted events rejected =
     (let item0 = \<lparr>itemId = uploadId, fileOf = f, progress = Num 0, status = ''uploading''\<rparr>;
          h0 = [q @ [item0]]
      in case granted of
           Inl e \<Rightarrow> (written (markError uploadId) h0, None)
         | Inr g \<Rightarrow>
             (case apiService_uploadToS3 (Some (\<lambda>v. written (setProgress uploadId v)))
                     events rejected h0 of
                (Inr u, h1) \<Rightarrow> (h1, Some (2000, removeItem uploadId))
              | (Inl e, h1) \<Rightarrow> (written (markError uploadId) h1, None)))"

text \<open>The item of an upload in the queue, and its status there.\<close>

definition itemOf :: "rat \<Rightarrow> uploadItem list \<Rightarrow> uploadItem option" where
  "itemOf uploadId q = find (\<lambda>i. itemId i = uploadId) q"

definition statusOf :: "rat \<Rightarrow> uploadItem list \<Rightarrow> string option" where
  "statusOf uploadId q = map_option status (itemOf uploadId q)"

section \<open>Notions used in the statements\<close>

text \<open>A progress callback that only notes the values it is called with.\<close>

definition noted :: "jsnumber \<Rightarrow> jsnumber list \<Rightarrow> jsnumber list" where
  "noted v vs = vs @ [v]"

text \<open>A number in the interval from 0 to 100.\<close>

fun percent :: "jsnumber \<Rightarrow> bool" where
  "percent (Num x) = (0 \<le> x \<and> x \<le> 100)"
| "percent NaN = False"
| "percent Infinity = False"

text \<open>An axios progress event that carries a positive total, not yet exceeded.\<close>

definition computable :: "axiosProgressEvent \<Rightarrow> bool" where
  "computable e = (case ax_total e of None \<Rightarrow> False | Some t \<Rightarrow> 0 < t \<and> ax_loaded e \<le> t)"

text \<open>
  A session of the first push channel with automatic reconnects: \<open>connect\<close> and the
  opening of socket 0, then for each close code in turn the closing of the current socket,
  the firing of the one pending timer and the opening of the socket that the timer's
  \<open>connect\<close> made.
\<close>

fun reconnects :: "nat \<Rightarrow> nat list \<Rightarrow> 'cb event list" where
  "reconnects i [] = []"
| "reconnects i (code # codes) =
     [Closed i code, TimerFired 0, Opened (Suc i)] @ reconnects (Suc i) codes"

definition sessionOf :: "string option \<Rightarrow> 'cb handlers \<Rightarrow> nat list \<Rightarrow> 'cb event list" where
  "sessionOf fid h codes = [Connect fid h, Opened 0] @ reconnects 0 codes"

text \<open>
  The state of the first service while socket \<open>k\<close> of such a session is open: no timer
  is pending, no callback has been called yet, and the listeners are \<open>k + 1\<close> copies of
  \<open>cb\<close>.
\<close>

definition live :: "browser \<Rightarrow> 'cb handlers \<Rightarrow> 'cb \<Rightarrow> nat \<Rightarrow> 'cb service \<Rightarrow> bool" where
  "live w h cb k s =
     (ws s = Some k \<and> length (sockets s) = Suc k \<and> readyState (sockets s ! k) = OPEN \<and>
      captured (sockets s ! k) = h \<and> timers s = [] \<and>
      map snd (listeners s) = replicate (Suc k) cb \<and> calls s = [] \<and> page s = w \<and>
      reconnectAttempts s = 0)"

section \<open>Example inputs\<close>

definition demoPlatform :: platform where
  "demoPlatform =
     \<lparr>REST_API_BASE_URL = ''https://api'', WEBSOCKET_API_URL = ''wss://push'',
      JSON_parse = (\<lambda>s. if s = ''{}'' then Some (JObj Map.empty) else None),
      JSON_stringify = (\<lambda>v. ''{}''),
      fetch = (\<lambda>u c. Some \<lparr>httpStatus = 200, json = Some (JObj Map.empty)\<rparr>),
      encodeURIComponent = (\<lambda>s. s), urlAccepted = (\<lambda>u. True)\<rparr>"

definition demoBrowser :: browser where
  "demoBrowser =
     \<lparr>localStorage = [''jwt_token'' \<mapsto> ''tok''], pathname = ''/upload'', fetched = []\<rparr>"

text \<open>
  A platform whose JSON functions know the one text of the example: the request for an
  upload of \<open>bird.jpg\<close>.
\<close>

definition demoRequestText :: string where
  "demoRequestText = ''{filename: bird.jpg, content_type: image/jpeg}''"

definition restPlatform :: platform where
  "restPlatform =
     demoPlatform
       \<lparr>JSON_parse :=
          (\<lambda>s. if s = demoRequestText
                then Some (JObj [''filename'' \<mapsto> JStr ''bird.jpg'',
                                 ''content_type'' \<mapsto> JStr ''image/jpeg''])
                else None),
        JSON_stringify := (\<lambda>v. demoRequestText)\<rparr>"

definition demoHandlers :: "string handlers" where
  "demoHandlers =
     \<lparr>onMessage = Some ''onMessage'', onError = Some ''onError'', onClose = Some ''onClose''\<rparr>"

text \<open>Callbacks that never throw, and callbacks of which the one named first throws.\<close>

definition quiet :: "string \<Rightarrow> arg \<Rightarrow> bool" where
  "quiet l a = False"

definition firstThrows :: "string \<Rightarrow> arg \<Rightarrow> bool" where
  "firstThrows l a = (l = ''first'')"

definition demoListening :: "string service" where
  "demoListening = (constructed demoBrowser)\<lparr>listeners := [(0, ''first''), (1, ''second'')]\<rparr>"

text \<open>
  A browser with stored OAuth tokens and a Cognito user whose session cannot be read;
  the id token's payload has the expiry \<open>e\<close>, and the time is 1700000000.
\<close>

definition demoPayload :: "rat option \<Rightarrow> jwtPayload" where
  "demoPayload e =
     \<lparr>exp_claim = e, sub_claim = Some ''u-1'', email_claim = Some ''a@b.c'', name_claim = None,
      cognito_username = None\<rparr>"

definition demoAuth :: "rat option \<Rightarrow> authEnv" where
  "demoAuth e =
     \<lparr>getCurrentUser = Inr (Some \<lparr>getSession = Failure, getUserAttributes = Failure\<rparr>),
      window = \<lparr>localStorage = [''idToken'' \<mapsto> ''id.jwt'', ''accessToken'' \<mapsto> ''access.jwt''],
                pathname = ''/'', fetched = []\<rparr>,
      decodeJWT = (\<lambda>t. if t = ''id.jwt'' then Some (demoPayload e) else None),
      now = 1700000000\<rparr>"

text \<open>
  The same browser with a Cognito user whose session is valid, and with one whose
  \<^verbatim>\<open>getSession\<close> throws.
\<close>

definition demoSession :: cognitoSession where
  "demoSession =
     \<lparr>isValid = Inr True, idJwt = ''cognito.id'', accessJwt = ''cognito.access'',
      refreshJwt = ''cognito.refresh''\<rparr>"

definition demoCognito :: authEnv where
  "demoCognito =
     (demoAuth (Some 1800000000))
       \<lparr>getCurrentUser :=
          Inr (Some \<lparr>getSession = Success demoSession,
                     getUserAttributes = Success [(''sub'', ''u-1''), (''email'', ''a@b.c'')]\<rparr>)\<rparr>"

definition demoThrowing :: authEnv where
  "demoThrowing =
     (demoAuth (Some 1800000000))
       \<lparr>getCurrentUser := Inr (Some \<lparr>getSession = Throws TypeError, getUserAttributes = Failure\<rparr>)\<rparr>"

definition demoService :: "string websocketService" where
  "demoService = svc_constructed (demoAuth (Some 1800000000)) ''wss://push/''"

definition demoFile :: fileInfo where
  "demoFile = \<lparr>file_name = ''bird.jpg'', file_type = ''image/jpeg'', file_size = 2048\<rparr>"

definition demoGrant :: grant where
  "demoGrant =
     \<lparr>file_id = ''f-001'', presign_url = ''https://store/f-001'', s3_key = ''uploads/f-001''\<rparr>"

text \<open>A queue that holds an item of an upload that has failed.\<close>

definition demoFailed :: "uploadItem list" where
  "demoFailed = [\<lparr>itemId = 1, fileOf = demoFile, progress = Num 0, status = ''error''\<rparr>]"

definition demoTransfer :: "axiosProgressEvent list" where
  "demoTransfer =
     [\<lparr>ax_loaded = 0, ax_total = Some 2048\<rparr>, \<lparr>ax_loaded = 1024, ax_total = Some 2048\<rparr>,
      \<lparr>ax_loaded = 2048, ax_total = Some 2048\<rparr>]"

definition demoUpload :: "progressEvent list" where
  "demoUpload =
     [\<lparr>lengthComputable = True, loaded = 0, total_bytes = 2048\<rparr>,
      \<lparr>lengthComputable = True, loaded = 1024, total_bytes = 2048\<rparr>,
      \<lparr>lengthComputable = True, loaded = 2048, total_bytes = 2048\<rparr>]"

definition demoEvent :: jsobject where
  "demoEvent =
     [''type'' \<mapsto> JStr ''FILE_UPDATE'', ''file_id'' \<mapsto> JStr ''f-001'',
      ''tags'' \<mapsto> JObj [''crow'' \<mapsto> JNum 2]]"

text \<open>A file as the listing has it, and a message whose file id is an array.\<close>

definition demoListed :: jsobject where
  "demoListed = [''file_id'' \<mapsto> JStr ''f-001'', ''file_type'' \<mapsto> JStr ''image'']"

definition demoArrayId :: jsobject where
  "demoArrayId = [''type'' \<mapsto> JStr ''FILE_UPDATE'', ''file_id'' \<mapsto> JArr [JStr ''f-001'']]"

chapter \<open>Properties\<close>

section \<open>The file list: delivering a message twice\<close>

lemma findIndex_Some_iff:
  "findIndex P xs = Some i \<longleftrightarrow> i < length xs \<and> P (xs ! i) \<and> (\<forall>j<i. \<not> P (xs ! j))"
proof (induction xs arbitrary: i)
  case Nil
  show ?case by simp
next
  case (Cons x xs)
  show ?case
  proof (cases "P x")
    case True
    then show ?thesis by (cases i) auto
  next
    case False
    show ?thesis
    proof (cases i)
      case 0
      with False show ?thesis by auto
    next
      case (Suc k)
      with False Cons.IH [of k] show ?thesis
        by (auto simp: less_Suc_eq_0_disj)
    qed
  qed
qed

lemma strictEquals_iff: "strictEquals a b \<longleftrightarrow> primitive a \<and> a = b"
  by (cases "(a, b)" rule: strictEquals.cases) auto

lemma strictEquals_type: "strictEquals v (Some (JStr s)) \<longleftrightarrow> v = Some (JStr s)"
  by (auto simp: strictEquals_iff)

lemma findIndex_None_iff: "findIndex P xs = None \<longleftrightarrow> (\<forall>x\<in>set xs. \<not> P x)"
  by (induction xs) auto

lemma spread_absorb: "spread (spread a b) b = spread a b"
  by (auto simp: spread_def map_add_def fun_eq_iff split: option.splits)

lemma spread_self: "spread b b = b"
  by (auto simp: spread_def map_add_def fun_eq_iff split: option.splits)

lemma spread_key: "a k = b k \<Longrightarrow> spread a b k = b k"
  by (simp add: spread_def map_add_def split: option.splits)

text \<open>The spread, property by property: the message's value where it has one.\<close>

lemma spread_fields: "spread a b = (\<lambda>k. case b k of Some v \<Rightarrow> Some v | None \<Rightarrow> a k)"
  by (auto simp: spread_def map_add_def fun_eq_iff split: option.splits)

text \<open>A message whose id is in no listed file is put in front of the list.\<close>

lemma handleWebSocketMessage_unseen:
  assumes "data ''type'' = Some (JStr ''FILE_UPDATE'')" "primitive (data ''file_id'')"
    and "\<forall>f\<in>set files. f ''file_id'' \<noteq> data ''file_id''"
  shows "handleWebSocketMessage files data = data # files"
proof -
  have "findIndex (\<lambda>f. strictEquals (f ''file_id'') (data ''file_id'')) files = None"
    using assms(3) by (simp add: findIndex_None_iff strictEquals_iff)
  then show ?thesis using assms(1) by (simp add: handleWebSocketMessage_def)
qed

text \<open>
  A message whose id is listed changes the first file with that id, and only that one:
  the file keeps its properties except those the message has.
\<close>

lemma handleWebSocketMessage_seen:
  assumes "data ''type'' = Some (JStr ''FILE_UPDATE'')" "primitive (data ''file_id'')"
    and "i < length files" "(files ! i) ''file_id'' = data ''file_id''"
    and "\<forall>j<i. (files ! j) ''file_id'' \<noteq> data ''file_id''"
  shows "handleWebSocketMessage files data =
           files[i := (\<lambda>k. case data k of Some v \<Rightarrow> Some v | None \<Rightarrow> (files ! i) k)]"
proof -
  have "findIndex (\<lambda>f. strictEquals (f ''file_id'') (data ''file_id'')) files = Some i"
    using assms(2-5) by (simp add: findIndex_Some_iff strictEquals_iff)
  then show ?thesis using assms(1) by (simp add: handleWebSocketMessage_def spread_fields)
qed

text \<open>
  The second delivery: an unseen id is inserted by the first delivery and found by the
  second; a seen id is merged by both, and merging the same properties twice is merging
  them once.
\<close>

lemma handleWebSocketMessage_twice:
  assumes "primitive (data ''file_id'')"
  shows "handleWebSocketMessage (handleWebSocketMessage files data) data =
         handleWebSocketMessage files data"
proof (cases "data ''type'' = Some (JStr ''FILE_UPDATE'')")
  case False
  then show ?thesis by (simp add: handleWebSocketMessage_def strictEquals_type)
next
  case upd: True
  let ?P = "\<lambda>f::jsobject. strictEquals (f ''file_id'') (data ''file_id'')"
  have self: "?P data" using assms by (simp add: strictEquals_iff)
  show ?thesis
  proof (cases "findIndex ?P files")
    case None
    then have first: "handleWebSocketMessage files data = data # files"
      using upd by (simp add: handleWebSocketMessage_def)
    have "findIndex ?P (data # files) = Some 0" using self by simp
    then have "handleWebSocketMessage (data # files) data = data # files"
      using upd by (simp add: handleWebSocketMessage_def spread_self)
    with first show ?thesis by simp
  next
    case (Some i)
    let ?m = "spread (files ! i) data"
    from Some have i: "i < length files" "?P (files ! i)" "\<forall>j<i. \<not> ?P (files ! j)"
      by (simp_all add: findIndex_Some_iff)
    have first: "handleWebSocketMessage files data = files[i := ?m]"
      using upd Some by (simp add: handleWebSocketMessage_def)
    have "(files ! i) ''file_id'' = data ''file_id''" using i(2) by (simp add: strictEquals_iff)
    then have "?m ''file_id'' = data ''file_id''" by (rule spread_key)
    then have "?P ?m" using assms by (simp add: strictEquals_iff)
    with i have "findIndex ?P (files[i := ?m]) = Some i"
      by (simp add: findIndex_Some_iff)
    then have "handleWebSocketMessage (files[i := ?m]) data = files[i := ?m]"
      using upd i(1) by (simp add: handleWebSocketMessage_def spread_absorb)
    with first show ?thesis by simp
  qed
qed

text \<open>
  Claim C1, as the code has it. Let the message's \<^verbatim>\<open>file_id\<close> be a primitive value:
  a string, as the service's \<^verbatim>\<open>requestUpload\<close> documents the file id to be, or a
  number, a boolean, \<^verbatim>\<open>null\<close>, or absent. Then, for every file list,

  \<^item> handling the message a second time changes nothing: the list after two deliveries is
    the list after one;
  \<^item> a \<^verbatim>\<open>FILE_UPDATE\<close> whose id no listed file has is inserted, in front of the list;
  \<^item> a \<^verbatim>\<open>FILE_UPDATE\<close> whose id is listed is merged over the first file with that
    id: each property the message has takes the message's value, every other property
    of the file and every other file stay as they were;
  \<^item> a message of another type leaves the list as it is.
\<close>

theorem handleWebSocketMessage_idempotent:
  assumes "primitive (data ''file_id'')"
  shows "handleWebSocketMessage (handleWebSocketMessage files data) data =
           handleWebSocketMessage files data
       \<and> (data ''type'' = Some (JStr ''FILE_UPDATE'') \<longrightarrow>
            ((\<forall>f\<in>set files. f ''file_id'' \<noteq> data ''file_id'') \<longrightarrow>
               handleWebSocketMessage files data = data # files)
          \<and> (\<forall>i. i < length files \<and> (files ! i) ''file_id'' = data ''file_id'' \<and>
                 (\<forall>j<i. (files ! j) ''file_id'' \<noteq> data ''file_id'') \<longrightarrow>
               handleWebSocketMessage files data =
                 files[i := (\<lambda>k. case data k of Some v \<Rightarrow> Some v | None \<Rightarrow> (files ! i) k)]))
       \<and> (data ''type'' \<noteq> Some (JStr ''FILE_UPDATE'') \<longrightarrow> handleWebSocketMessage files data = files)"
  using assms handleWebSocketMessage_twice [of data files]
    handleWebSocketMessage_unseen [of data files] handleWebSocketMessage_seen [of data _ files]
  by (simp add: handleWebSocketMessage_def strictEquals_type)

text \<open>
  The scenario of the specification: the event for file \<open>f-001\<close> with two crows makes one
  entry of an empty list, and its second delivery leaves the list as it is. When the file
  is listed already, the event adds its type and tags to the entry and keeps the file
  type, and a second delivery changes nothing.
\<close>

theorem handleWebSocketMessage_idempotent_witness:
  "primitive (demoEvent ''file_id'')
   \<and> handleWebSocketMessage [] demoEvent = [demoEvent]
   \<and> handleWebSocketMessage (handleWebSocketMessage [] demoEvent) demoEvent = [demoEvent]
   \<and> handleWebSocketMessage [demoListed] demoEvent =
       [[''file_id'' \<mapsto> JStr ''f-001'', ''file_type'' \<mapsto> JStr ''image'',
         ''type'' \<mapsto> JStr ''FILE_UPDATE'', ''tags'' \<mapsto> JObj [''crow'' \<mapsto> JNum 2]]]
   \<and> handleWebSocketMessage (handleWebSocketMessage [demoListed] demoEvent) demoEvent =
       handleWebSocketMessage [demoListed] demoEvent"
  using handleWebSocketMessage_idempotent [of demoEvent "[]"]
    handleWebSocketMessage_idempotent [of demoEvent "[demoListed]"]
  by (auto simp: demoEvent_def demoListed_def fun_eq_iff)

text \<open>
  Claim C1 as the specification words it, for every event, fails for an event whose
  \<^verbatim>\<open>file_id\<close> is an array. Every delivery is parsed anew, and an array is identical to
  no array parsed from another frame: the first delivery inserts the event into the
  empty list, the second does not find it and inserts it again, so that the list after
  two deliveries has two entries where the list after one has one.
\<close>

theorem handleWebSocketMessage_array_id_counterexample:
  "handleWebSocketMessage [] demoArrayId = [demoArrayId]
   \<and> handleWebSocketMessage (handleWebSocketMessage [] demoArrayId) demoArrayId =
       [demoArrayId, demoArrayId]
   \<and> handleWebSocketMessage (handleWebSocketMessage [] demoArrayId) demoArrayId \<noteq>
       handleWebSocketMessage [] demoArrayId"
  by (simp add: handleWebSocketMessage_def demoArrayId_def)

section \<open>REST calls: where the token travels\<close>

lemma methodOf_config:
  "methodOf (options\<lparr>headers := h, body := b\<rparr>) = methodOf options"
  by (simp add: methodOf_def)

text \<open>
  A call of \<open>request\<close> with another method than \<^verbatim>\<open>GET\<close> and \<^verbatim>\<open>HEAD\<close>, while a token
  is stored and the caller's body, as \<open>request\<close> reads it, is an object without a \<open>token\<close>
  property: the one request sent has as body that object with \<open>token\<close> set to the stored
  token, and the headers sent are the caller's with a content type added, so an
  \<open>Authorization\<close> header is there only if the caller gave one.
\<close>

lemma request_body_carries_token:
  assumes "getToken (localStorage w) = Some t" and "t \<noteq> []"
    and "requestBody p options = JObj m" and "m ''token'' = None"
    and "methodOf options \<notin> {''GET'', ''HEAD''}"
  shows "fetched (snd (request p endpoint options w)) =
           fetched w @
             [(REST_API_BASE_URL p @ endpoint,
               options\<lparr>headers := [''Content-Type'' \<mapsto> ''application/json''] ++ headers options,
                        body := Some (JObj (m(''token'' \<mapsto> JStr t)))\<rparr>)]
         \<and> ([''Content-Type'' \<mapsto> ''application/json''] ++ headers options) ''Authorization''
             = headers options ''Authorization''"
  using assms
  by (auto simp: request_def attachToken_def bodyRefused_def methodOf_config Let_def map_add_def
      split: option.splits)

text \<open>
  A call of \<open>request\<close> with the method \<^verbatim>\<open>GET\<close> or \<^verbatim>\<open>HEAD\<close>, or with none, sends
  nothing and fails, whatever the token and the caller's body are: \<open>request\<close> gives every
  request a body.
\<close>

lemma request_refused:
  assumes "methodOf options \<in> {''GET'', ''HEAD''}"
  shows "fetched (snd (request p endpoint options w)) = fetched w
       \<and> isl (fst (request p endpoint options w))"
  using assms
  by (auto simp: request_def bodyRefused_def methodOf_config Let_def split: sum.splits)

lemma fetched_answer: "fetched (snd (answer res c d)) = fetched (snd res)"
  by (auto simp: answer_def split: prod.splits sum.splits option.splits)

text \<open>
  The two functions that call \<open>request\<close>. The metadata request is a \<^verbatim>\<open>GET\<close>, so it is
  never sent and \<open>getFileMetadata\<close> fails. The upload request is a \<^verbatim>\<open>POST\<close>: where
  \<^verbatim>\<open>JSON.parse\<close> reads back what \<^verbatim>\<open>JSON.stringify\<close> wrote of it, its body is sent
  with the stored token added.
\<close>

lemma getFileMetadata_never_sent:
  "fetched (snd (getFileMetadata p fid w)) = fetched w \<and> isl (fst (getFileMetadata p fid w))"
proof -
  let ?r = "request p (''/metadata/'' @ fid)
      \<lparr>http_method = Some ''GET'', headers = Map.empty, body = None\<rparr> w"
  have "methodOf \<lparr>http_method = Some ''GET'', headers = Map.empty, body = None\<rparr> \<in> {''GET'', ''HEAD''}"
    by (simp add: methodOf_def toUpperCase_def)
  then have "fetched (snd ?r) = fetched w \<and> isl (fst ?r)" by (rule request_refused)
  then show ?thesis
    by (cases ?r) (auto simp: getFileMetadata_def answer_def split: sum.splits)
qed

lemma requestUploadFile_sends_token:
  assumes "getToken (localStorage w) = Some t" "t \<noteq> []"
    and "JSON_stringify p (JObj [''filename'' \<mapsto> JStr filename, ''content_type'' \<mapsto> JStr contentType]) = text"
    and "text \<noteq> []"
    and "JSON_parse p text =
           Some (JObj [''filename'' \<mapsto> JStr filename, ''content_type'' \<mapsto> JStr contentType])"
  shows "fetched (snd (requestUploadFile p filename contentType w)) =
           fetched w @
             [(REST_API_BASE_URL p @ ''/upload-file'',
               \<lparr>http_method = Some ''POST'', headers = [''Content-Type'' \<mapsto> ''application/json''],
                body = Some (JObj [''filename'' \<mapsto> JStr filename, ''content_type'' \<mapsto> JStr contentType,
                                   ''token'' \<mapsto> JStr t])\<rparr>)]"
proof -
  let ?o = "\<lparr>http_method = Some ''POST'', headers = Map.empty, body = Some (JStr text)\<rparr>"
  have m: "methodOf ?o \<notin> {''GET'', ''HEAD''}"
    by (simp add: methodOf_def toUpperCase_def)
  have b: "requestBody p ?o =
      JObj [''filename'' \<mapsto> JStr filename, ''content_type'' \<mapsto> JStr contentType]"
    using assms(4,5) by (simp add: requestBody_def)
  have "fetched (snd (request p ''/upload-file'' ?o w)) =
      fetched w @
        [(REST_API_BASE_URL p @ ''/upload-file'',
          ?o\<lparr>headers := [''Content-Type'' \<mapsto> ''application/json''] ++ headers ?o,
              body := Some (JObj ([''filename'' \<mapsto> JStr filename, ''content_type'' \<mapsto> JStr contentType]
                                   (''token'' \<mapsto> JStr t)))\<rparr>)]"
    using request_body_carries_token [OF assms(1,2) b _ m] by simp
  then show ?thesis
    using assms(3) by (simp add: requestUploadFile_def fetched_answer)
qed

text \<open>
  Claim C10, at the call that \<open>getFileMetadata\<close> makes for file \<open>f-001\<close> while the token
  \<open>tok\<close> is stored. \<open>request\<close> gives the \<^verbatim>\<open>GET\<close> the body \<^verbatim>\<open>{"token": "tok"}\<close>, which
  \<^verbatim>\<open>fetch\<close> refuses: \<open>request\<close> fails with a \<^verbatim>\<open>TypeError\<close>, and so does
  \<open>getFileMetadata\<close>, nothing is sent, and no token reaches the server. The \<^verbatim>\<open>POST\<close> of
  \<open>requestUploadFile\<close> is sent, with the token in its body and no \<open>Authorization\<close> header.
\<close>

theorem getFileMetadata_sends_no_request:
  "request demoPlatform ''/metadata/f-001''
     \<lparr>http_method = Some ''GET'', headers = Map.empty, body = None\<rparr> demoBrowser =
     (Inl TypeError, demoBrowser)
   \<and> getFileMetadata demoPlatform ''f-001'' demoBrowser = (Inl TypeError, demoBrowser)
   \<and> fetched (snd (getFileMetadata demoPlatform ''f-001'' demoBrowser)) = []
   \<and> fetched (snd (requestUploadFile restPlatform ''bird.jpg'' ''image/jpeg'' demoBrowser)) =
       [(''https://api/upload-file'',
         \<lparr>http_method = Some ''POST'', headers = [''Content-Type'' \<mapsto> ''application/json''],
          body = Some (JObj [''filename'' \<mapsto> JStr ''bird.jpg'', ''content_type'' \<mapsto> JStr ''image/jpeg'',
                             ''token'' \<mapsto> JStr ''tok''])\<rparr>)]"
  by (simp add: request_def getFileMetadata_def requestUploadFile_def answer_def attachToken_def
      requestBody_def bodyRefused_def methodOf_def toUpperCase_def getToken_def Let_def
      demoPlatform_def restPlatform_def demoRequestText_def demoBrowser_def ok_def)

section \<open>Credentials: the order of the sources and the expiry test\<close>

text \<open>
  The Cognito source first. A valid session whose attributes can be read is the answer,
  whatever is stored.
\<close>

lemma getUserSession_cognito_first:
  assumes "getCurrentUser env = Inr (Some u)" "getSession u = Success session"
    and "isValid session = Inr True" "getUserAttributes u = Success attributes"
  shows "getUserSession env =
           Inr \<lparr>idToken = idJwt session, accessToken = accessJwt session,
                refreshToken = refreshJwt session,
                user = cognitoUserOf (userAttributes attributes)\<rparr>"
  using assms by (simp add: getUserSession_def)

text \<open>
  The stored tokens second: when there is no Cognito user, when \<^verbatim>\<open>getSession\<close> or
  \<^verbatim>\<open>getUserAttributes\<close> calls back with an error, and when the session is not valid, the
  answer is that of \<open>getOAuthSession\<close>.
\<close>

lemma getUserSession_falls_back:
  assumes "getCurrentUser env = Inr None
         \<or> (\<exists>u. getCurrentUser env = Inr (Some u) \<and>
              (getSession u = Failure
               \<or> (\<exists>session. getSession u = Success session \<and>
                    (isValid session = Inr False
                     \<or> isValid session = Inr True \<and> getUserAttributes u = Failure))))"
  shows "getUserSession env = getOAuthSession env"
  using assms by (auto simp: getUserSession_def)

text \<open>What the SDK throws is the answer, and the stored tokens are not asked.\<close>

lemma getUserSession_thrown:
  assumes "getCurrentUser env = Inl e
         \<or> (\<exists>u. getCurrentUser env = Inr (Some u) \<and>
              (getSession u = Throws e
               \<or> (\<exists>session. getSession u = Success session \<and>
                    (isValid session = Inl e
                     \<or> isValid session = Inr True \<and> getUserAttributes u = Throws e))))"
  shows "getUserSession env = Inl e"
  using assms by (auto simp: getUserSession_def)

text \<open>
  What the stored tokens give: the error \<open>No user found\<close> when the id token or the
  access token is missing, \<open>Invalid token\<close> when the id token does not decode,
  \<open>Token expired\<close> when its \<^verbatim>\<open>exp\<close> is not zero and before the current time, and
  otherwise the stored tokens as the session.
\<close>

lemma getOAuthSession_cases:
  "(\<not> truthyStr (localStorage (window env) ''idToken'') \<or>
    \<not> truthyStr (localStorage (window env) ''accessToken'') \<longrightarrow>
      getOAuthSession env = Inl (Error (JStr ''No user found'')))
   \<and> (\<forall>i a. localStorage (window env) ''idToken'' = Some i \<and> i \<noteq> [] \<and>
         localStorage (window env) ''accessToken'' = Some a \<and> a \<noteq> [] \<longrightarrow>
         (decodeJWT env i = None \<longrightarrow> getOAuthSession env = Inl (Error (JStr ''Invalid token'')))
       \<and> (\<forall>p. decodeJWT env i = Some p \<longrightarrow>
            (\<forall>e. exp_claim p = Some e \<and> e \<noteq> 0 \<and> e < now env \<longrightarrow>
               getOAuthSession env = Inl (Error (JStr ''Token expired'')))
          \<and> ((case exp_claim p of None \<Rightarrow> True | Some e \<Rightarrow> e = 0 \<or> now env \<le> e) \<longrightarrow>
               getOAuthSession env =
                 Inr \<lparr>idToken = i, accessToken = a,
                      refreshToken =
                        (case localStorage (window env) ''refreshToken'' of None \<Rightarrow> [] | Some r \<Rightarrow> r),
                      user = oauthUser p\<rparr>)))"
  by (auto simp: getOAuthSession_def tokenExpired_def Let_def split: option.splits)

text \<open>
  The three answers on the example: the Cognito session although tokens are stored; the
  stored tokens, with an expiry ahead, when \<^verbatim>\<open>getSession\<close> calls back with an error,
  and the error \<open>Token expired\<close> when their expiry has passed; the \<^verbatim>\<open>TypeError\<close> that
  \<^verbatim>\<open>getSession\<close> throws.
\<close>

lemma getUserSession_examples:
  "getUserSession demoCognito =
     Inr \<lparr>idToken = ''cognito.id'', accessToken = ''cognito.access'',
          refreshToken = ''cognito.refresh'',
          user = \<lparr>userId = Some ''u-1'', email = Some ''a@b.c'', name = Some ''a@b.c''\<rparr>\<rparr>
   \<and> getUserSession (demoAuth (Some 1800000000)) =
     Inr \<lparr>idToken = ''id.jwt'', accessToken = ''access.jwt'', refreshToken = [],
          user = \<lparr>userId = Some ''u-1'', email = Some ''a@b.c'', name = Some ''a@b.c''\<rparr>\<rparr>
   \<and> getUserSession (demoAuth (Some 1600000000)) = Inl (Error (JStr ''Token expired''))
   \<and> getUserSession demoThrowing = Inl TypeError"
  by (simp add: getUserSession_def getOAuthSession_def tokenExpired_def oauthUser_def orElse_def
      cognitoUserOf_def userAttributes_def demoCognito_def demoSession_def demoThrowing_def
      demoAuth_def demoPayload_def)

text \<open>
  Claim C5, at a stored id token whose \<^verbatim>\<open>exp\<close> claim is 0. The Cognito source calls
  back with an error, so the stored tokens are the only credential; the expiry, second 0
  of the epoch, has passed at time 1700000000. The test \<^verbatim>\<open>tokenPayload.exp &&
  tokenPayload.exp < now\<close> reads the 0 as no expiry at all, and \<open>getUserSession\<close> answers
  with the credential instead of the error \<open>Token expired\<close>, which it gives for the
  expiry 1600000000. The expiry test of the first client counts the same token as
  expired.
\<close>

theorem getUserSession_returns_expired_token:
  "getCurrentUser (demoAuth (Some 0)) = Inr (Some \<lparr>getSession = Failure, getUserAttributes = Failure\<rparr>)
   \<and> localStorage (window (demoAuth (Some 0))) ''idToken'' = Some ''id.jwt''
   \<and> decodeJWT (demoAuth (Some 0)) ''id.jwt'' = Some (demoPayload (Some 0))
   \<and> exp_claim (demoPayload (Some 0)) = Some 0 \<and> (0 :: rat) < now (demoAuth (Some 0))
   \<and> getUserSession (demoAuth (Some 0)) =
       Inr \<lparr>idToken = ''id.jwt'', accessToken = ''access.jwt'', refreshToken = [],
            user = \<lparr>userId = Some ''u-1'', email = Some ''a@b.c'', name = Some ''a@b.c''\<rparr>\<rparr>
   \<and> getUserSession (demoAuth (Some 1600000000)) = Inl (Error (JStr ''Token expired''))
   \<and> isTokenExpired (decodeJWT (demoAuth (Some 0))) (now (demoAuth (Some 0)) * 1000) ''id.jwt''"
  by (simp add: demoAuth_def demoPayload_def getUserSession_def getOAuthSession_def
      tokenExpired_def oauthUser_def orElse_def isTokenExpired_def)

section \<open>The byte transfer: progress values and failure\<close>

lemma fold_progressListener:
  "fold (progressListener (Some noted)) events vs =
     vs @ map (\<lambda>e. jsTimes (jsDivide (loaded e) (total_bytes e)) 100) (filter lengthComputable events)"
  by (induction events arbitrary: vs) (auto simp: progressListener_def noted_def)

lemma fold_onUploadProgress:
  "fold (onUploadProgress (Some noted)) events vs = vs @ map percentCompleted events"
  by (induction events arbitrary: vs) (auto simp: onUploadProgress_def noted_def)

lemma percent_xhr:
  assumes "0 < total_bytes e" "loaded e \<le> total_bytes e"
  shows "percent (jsTimes (jsDivide (loaded e) (total_bytes e)) 100)"
proof -
  have le: "(of_nat (loaded e) :: rat) \<le> of_nat (total_bytes e)" using assms by simp
  have pos: "(0 :: rat) < of_nat (total_bytes e)" using assms by simp
  have "(of_nat (loaded e) :: rat) / of_nat (total_bytes e) * 100 \<le> 100"
    using le pos by (simp add: divide_le_eq)
  moreover have "0 \<le> (of_nat (loaded e) :: rat) / of_nat (total_bytes e) * 100" by simp
  ultimately show ?thesis using assms by (simp add: jsDivide_def)
qed

lemma percent_axios:
  assumes "computable e"
  shows "percent (percentCompleted e)"
proof -
  from assms obtain t where t: "ax_total e = Some t" "0 < t" "ax_loaded e \<le> t"
    by (auto simp: computable_def split: option.splits)
  let ?x = "(of_nat (ax_loaded e * 100) :: rat) / of_nat t"
  have "?x \<le> 100" using t by (simp add: divide_le_eq)
  then have "\<lfloor>?x + 1 / 2\<rfloor> \<le> 100" by (simp add: floor_le_iff)
  moreover have "0 \<le> ?x" by simp
  then have "0 \<le> \<lfloor>?x + 1 / 2\<rfloor>" by simp
  ultimately show ?thesis using t by (simp add: percentCompleted_def jsDivide_def)
qed

text \<open>
  When the transport reports progress events whose byte counts are sound, both clients
  pass percentages. An event of the \<^verbatim>\<open>XMLHttpRequest\<close> is sound if, when it says its
  length is computable, it has a positive total and has loaded no more than it; an event
  handed on by axios is sound if it carries such a total. Then \<open>uploadToS3\<close> of the first
  client calls \<open>onProgress\<close> once for each event with a computable length, in order,
  \<open>uploadToS3\<close> of the second client once for each event, and every value passed lies
  between 0 and 100. The first fails exactly when the transfer ends otherwise than by a
  response with status 200 (a network error, or another status), the second exactly when
  axios rejects.
\<close>

theorem uploadToS3_progress_in_range:
  assumes "\<forall>e\<in>set events. lengthComputable e \<longrightarrow> 0 < total_bytes e \<and> loaded e \<le> total_bytes e"
    and "\<forall>e\<in>set axEvents. computable e"
  shows "snd (uploadToS3 (Some noted) events outcome []) =
           map (\<lambda>e. jsTimes (jsDivide (loaded e) (total_bytes e)) 100) (filter lengthComputable events)
       \<and> (\<forall>v\<in>set (snd (uploadToS3 (Some noted) events outcome [])). percent v)
       \<and> (isl (fst (uploadToS3 onProgress events outcome s)) \<longleftrightarrow> outcome \<noteq> Load 200)
       \<and> snd (apiService_uploadToS3 (Some noted) axEvents rejected []) = map percentCompleted axEvents
       \<and> (\<forall>v\<in>set (snd (apiService_uploadToS3 (Some noted) axEvents rejected [])). percent v)
       \<and> (isl (fst (apiService_uploadToS3 onProgress' axEvents rejected s')) \<longleftrightarrow> rejected \<noteq> None)"
proof -
  have a: "snd (uploadToS3 (Some noted) events outcome []) =
      map (\<lambda>e. jsTimes (jsDivide (loaded e) (total_bytes e)) 100) (filter lengthComputable events)"
    by (simp add: uploadToS3_def Let_def fold_progressListener split: xhrOutcome.splits)
  have b: "\<forall>v\<in>set (map (\<lambda>e. jsTimes (jsDivide (loaded e) (total_bytes e)) 100)
      (filter lengthComputable events)). percent v"
    using assms(1) by (auto intro: percent_xhr)
  have c: "isl (fst (uploadToS3 onProgress events outcome s)) \<longleftrightarrow> outcome \<noteq> Load 200"
    by (simp add: uploadToS3_def Let_def split: xhrOutcome.splits)
  have d: "snd (apiService_uploadToS3 (Some noted) axEvents rejected []) = map percentCompleted axEvents"
    by (simp add: apiService_uploadToS3_def Let_def fold_onUploadProgress split: option.splits)
  have e: "\<forall>v\<in>set (map percentCompleted axEvents). percent v"
    using assms(2) by (auto intro: percent_axios)
  have f: "isl (fst (apiService_uploadToS3 onProgress' axEvents rejected s')) \<longleftrightarrow> rejected \<noteq> None"
    by (simp add: apiService_uploadToS3_def Let_def split: option.splits)
  from a b c d e f show ?thesis by simp
qed

text \<open>
  A transfer of 2048 bytes reported at 0, 1024 and 2048 bytes: both clients pass 0, 50
  and 100; a response with status 403 makes the first one fail.
\<close>

theorem uploadToS3_progress_in_range_witness:
  "snd (uploadToS3 (Some noted) demoUpload (Load 200) []) = [Num 0, Num 50, Num 100]
   \<and> snd (apiService_uploadToS3 (Some noted) demoTransfer None []) = [Num 0, Num 50, Num 100]
   \<and> isl (fst (uploadToS3 (Some noted) demoUpload (Load 403) []))"
  using uploadToS3_progress_in_range [of demoUpload demoTransfer "Load 200" "Some noted" "[]" None
      "Some noted" "[]"]
    uploadToS3_progress_in_range [of demoUpload demoTransfer "Load 403" "Some noted" "[]" None
      "Some noted" "[]"]
  by (simp add: demoUpload_def demoTransfer_def computable_def percentCompleted_def jsDivide_def
      floor_eq_iff)

text \<open>
  Claim C7, on the second client. Its progress callback divides by the event's total
  without asking whether there is one, where the first client asks for
  \<open>lengthComputable\<close>. For an event without a total, which is what axios hands on when
  the length is not computable, the value passed to \<open>onProgress\<close> is not a number, and so
  not between 0 and 100; for a total of 0 and nothing loaded likewise. The first client
  passes nothing for an event whose length is not computable.
\<close>

theorem apiService_uploadToS3_passes_NaN:
  "snd (apiService_uploadToS3 (Some noted) [\<lparr>ax_loaded = 0, ax_total = None\<rparr>] None []) = [NaN]
   \<and> \<not> percent NaN
   \<and> snd (apiService_uploadToS3 (Some noted) [\<lparr>ax_loaded = 0, ax_total = Some 0\<rparr>] None []) = [NaN]
   \<and> snd (uploadToS3 (Some noted) [\<lparr>lengthComputable = False, loaded = 0, total_bytes = 0\<rparr>]
          (Load 200) []) = []"
  by (simp add: apiService_uploadToS3_def onUploadProgress_def percentCompleted_def noted_def
      jsDivide_def uploadToS3_def progressListener_def)

section \<open>The push channel: malformed messages and throwing handlers\<close>

lemma fold_notifyOne:
  "fold (notifyOne throws d) ls s =
     s\<lparr>calls := calls s @ map (\<lambda>l. (l, Data d)) ls,
       console := console s @
         map (\<lambda>l. ''Error in WebSocket listener:'') (filter (\<lambda>l. throws l (Data d)) ls)\<rparr>"
  by (induction ls arbitrary: s) (simp_all add: notifyOne_def consoleLog_def Let_def)

lemma fold_svc_notifyOne:
  "fold (svc_notifyOne throws msg a) hs s =
     s\<lparr>svc_calls := svc_calls s @ map (\<lambda>h. (h, a)) hs,
       svc_console := svc_console s @ map (\<lambda>h. msg) (filter (\<lambda>h. throws h a) hs)\<rparr>"
  by (induction hs arbitrary: s) (simp_all add: svc_notifyOne_def svc_log_def Let_def)

text \<open>
  Claim C8, for the message handler of either service (\<open>s\<close> is a state of the first,
  \<open>t\<close> of the second). A payload that \<^verbatim>\<open>JSON.parse\<close> rejects is printed to the console
  and nothing else changes: the socket, the listeners and the calls made so far stay as
  they were. A payload that parses is passed to every registered listener, in order of
  registration, whichever of them throw; the connection is left alone.
\<close>

theorem onmessage_drops_malformed_and_isolates_handlers:
  "(JSON_parse p raw = None \<longrightarrow>
      onmessage p throws raw s = s\<lparr>console := console s @ [''Failed to parse WebSocket message:'']\<rparr>
      \<and> svc_onmessage p throws raw t =
          t\<lparr>svc_console := svc_console t @ [''Failed to parse WebSocket message:'', ''Raw message:'']\<rparr>)
   \<and> (JSON_parse p raw = Some d \<longrightarrow>
      calls (onmessage p throws raw s) = calls s @ map (\<lambda>l. (l, Data d)) (map snd (listeners s))
      \<and> ws (onmessage p throws raw s) = ws s \<and> sockets (onmessage p throws raw s) = sockets s
      \<and> listeners (onmessage p throws raw s) = listeners s
      \<and> svc_calls (svc_onmessage p throws raw t) = svc_calls t @ map (\<lambda>h. (h, Data d)) (messageHandlers t)
      \<and> svc_ws (svc_onmessage p throws raw t) = svc_ws t
      \<and> svc_sockets (svc_onmessage p throws raw t) = svc_sockets t
      \<and> messageHandlers (svc_onmessage p throws raw t) = messageHandlers t)"
  by (simp add: onmessage_def svc_onmessage_def notifyListeners_def notifyMessageHandlers_def
      fold_notifyOne fold_svc_notifyOne consoleLog_def svc_log_def)

text \<open>
  Two listeners of which the first throws: a payload that is not JSON is printed and
  calls neither, and the message \<^verbatim>\<open>{}\<close> reaches both.
\<close>

theorem onmessage_drops_malformed_and_isolates_handlers_witness:
  "onmessage demoPlatform firstThrows ''not json'' demoListening =
     demoListening\<lparr>console := [''Failed to parse WebSocket message:'']\<rparr>
   \<and> calls (onmessage demoPlatform firstThrows ''{}'' demoListening) =
     [(''first'', Data (JObj Map.empty)), (''second'', Data (JObj Map.empty))]
   \<and> svc_calls (svc_onmessage demoPlatform firstThrows ''{}''
        (demoService\<lparr>messageHandlers := [''first'', ''second'']\<rparr>)) =
     [(''first'', Data (JObj Map.empty)), (''second'', Data (JObj Map.empty))]"
  using onmessage_drops_malformed_and_isolates_handlers [of demoPlatform "''not json''" firstThrows
      demoListening "demoService\<lparr>messageHandlers := [''first'', ''second'']\<rparr>" "JObj Map.empty"]
    onmessage_drops_malformed_and_isolates_handlers [of demoPlatform "''{}''" firstThrows
      demoListening "demoService\<lparr>messageHandlers := [''first'', ''second'']\<rparr>" "JObj Map.empty"]
  by (simp add: demoPlatform_def demoListening_def demoService_def constructed_def
      svc_constructed_def)

section \<open>The push channel: one more listener with every open\<close>

lemma run_append: "run p throws (es @ fs) s = run p throws fs (run p throws es s)"
  by (simp add: run_def)

lemma live_start:
  assumes "truthyStr (getToken (localStorage w))" "\<forall>u. urlAccepted p u" "onMessage h = Some cb"
  shows "live w h cb 0 (run p throws [Connect fid h, Opened 0] (constructed w))"
  using assms
  by (simp add: live_def run_def connect_def isConnected_def constructed_def Let_def socketIs_def
      setReadyState_def onopen_def consoleLog_def addMessageListener_def)

lemma live_cycle:
  assumes "truthyStr (getToken (localStorage w))" "\<forall>u. urlAccepted p u" "onMessage h = Some cb"
    and "live w h cb k s" "code \<noteq> 1000"
  shows "live w h cb (Suc k) (run p throws [Closed k code, TimerFired 0, Opened (Suc k)] s)"
  using assms
  by (simp add: live_def run_def connect_def isConnected_def Let_def socketIs_def
      setReadyState_def onopen_def onclose_def reconnect_def consoleLog_def addMessageListener_def
      maxReconnectAttempts_def nth_append replicate_append_same)

lemma live_reconnects:
  assumes "truthyStr (getToken (localStorage w))" "\<forall>u. urlAccepted p u" "onMessage h = Some cb"
  shows "live w h cb k s \<Longrightarrow> \<forall>c\<in>set codes. c \<noteq> 1000 \<Longrightarrow>
         live w h cb (k + length codes) (run p throws (reconnects k codes) s)"
proof (induction codes arbitrary: k s)
  case Nil
  then show ?case by (simp add: run_def)
next
  case (Cons c codes)
  have "live w h cb (Suc k) (run p throws [Closed k c, TimerFired 0, Opened (Suc k)] s)"
    using assms Cons.prems by (intro live_cycle) auto
  then have "live w h cb (Suc k + length codes)
      (run p throws (reconnects (Suc k) codes)
        (run p throws [Closed k c, TimerFired 0, Opened (Suc k)] s))"
    using Cons.prems by (intro Cons.IH) auto
  then show ?case
    by (simp add: run_def)
qed

text \<open>
  Claim C9. In the first service the handler of \<open>open\<close> adds the \<open>onMessage\<close> callback of
  its \<open>connect\<close> to the listeners and removes none. So take a session in which a token
  is stored and every URL is accepted: \<open>connect\<close> with a callback \<open>cb\<close>, the first open,
  and then one automatic reconnect for each of the close codes \<open>codes\<close>, none of them
  1000. A message that arrives on the last socket calls \<open>cb\<close> once more than there were
  reconnects, and calls nothing else.
\<close>

theorem listener_registered_on_every_open:
  assumes "truthyStr (getToken (localStorage w))" and "\<forall>u. urlAccepted p u"
    and "onMessage h = Some cb" and "\<forall>c\<in>set codes. c \<noteq> 1000" and "JSON_parse p raw = Some d"
  shows "calls (run p throws (sessionOf fid h codes @ [Message (length codes) raw]) (constructed w)) =
           replicate (Suc (length codes)) (cb, Data d)
       \<and> (\<forall>i s. onMessage (captured (sockets s ! i)) = Some cb \<longrightarrow>
            listeners (onopen i s) = listeners s @ [(nextKey s, cb)])"
proof -
  let ?s = "run p throws (sessionOf fid h codes) (constructed w)"
  have "live w h cb 0 (run p throws [Connect fid h, Opened 0] (constructed w))"
    using assms(1-3) by (rule live_start)
  then have "live w h cb (0 + length codes)
      (run p throws (reconnects 0 codes) (run p throws [Connect fid h, Opened 0] (constructed w)))"
    using assms(1-4) by (intro live_reconnects) auto
  then have l: "live w h cb (length codes) ?s"
    unfolding sessionOf_def run_append by simp
  then have "socketIs ?s (length codes) {OPEN, CLOSING}"
    by (simp add: live_def socketIs_def)
  then have r: "run p throws [Message (length codes) raw] ?s = notifyListeners throws d ?s"
    using assms(5) by (simp add: run_def onmessage_def)
  have m: "map snd (listeners ?s) = replicate (Suc (length codes)) cb" and c0: "calls ?s = []"
    using l by (simp_all add: live_def)
  have "calls (notifyListeners throws d ?s) =
      calls ?s @ map (\<lambda>l. (l, Data d)) (map snd (listeners ?s))"
    by (simp add: notifyListeners_def fold_notifyOne del: map_map)
  then have "calls (run p throws [Message (length codes) raw] ?s) =
      replicate (Suc (length codes)) (cb, Data d)"
    unfolding r m c0 by simp
  then have first: "calls (run p throws (sessionOf fid h codes @ [Message (length codes) raw])
      (constructed w)) = replicate (Suc (length codes)) (cb, Data d)"
    unfolding run_append by simp
  have "\<forall>i s. onMessage (captured (sockets s ! i)) = Some cb \<longrightarrow>
      listeners (onopen i s) = listeners s @ [(nextKey s, cb)]"
    by (simp add: onopen_def addMessageListener_def consoleLog_def)
  with first show ?thesis by simp
qed

text \<open>
  After two reconnects, caused by the close codes 1006 and 1001, one message calls the
  callback three times.
\<close>

theorem listener_registered_on_every_open_witness:
  "calls (run demoPlatform quiet
      (sessionOf (Some ''f-001'') demoHandlers [1006, 1001] @ [Message 2 ''{}''])
      (constructed demoBrowser)) =
     [(''onMessage'', Data (JObj Map.empty)), (''onMessage'', Data (JObj Map.empty)),
      (''onMessage'', Data (JObj Map.empty))]"
  using listener_registered_on_every_open [of demoBrowser demoPlatform demoHandlers "''onMessage''"
      "[1006, 1001]" "''{}''" "JObj Map.empty" quiet "Some ''f-001''"]
  by (simp add: demoPlatform_def demoBrowser_def demoHandlers_def getToken_def
      numeral_2_eq_2)

section \<open>The upload queue: the statuses an item takes\<close>

lemma findIndex_fresh:
  assumes "\<forall>i\<in>set q. itemId i \<noteq> uploadId" "itemId item = uploadId"
  shows "findIndex (\<lambda>i. itemId i = uploadId) (q @ [item]) = Some (length q)"
  using assms by (induction q) auto

lemma updateItem_fresh:
  assumes "\<forall>i\<in>set q. itemId i \<noteq> uploadId" "itemId item = uploadId"
  shows "updateItem uploadId f (q @ [item]) = q @ [f item]"
  using assms by (simp add: updateItem_def findIndex_fresh)

lemma itemOf_fresh:
  assumes "\<forall>i\<in>set q. itemId i \<noteq> uploadId" "itemId item = uploadId"
  shows "itemOf uploadId (q @ [item]) = Some item"
  using assms by (induction q) (auto simp: itemOf_def)

lemma statusOf_fresh:
  assumes "\<forall>i\<in>set q. itemId i \<noteq> uploadId" "itemId item = uploadId"
  shows "statusOf uploadId (q @ [item]) = Some (status item)"
  using assms by (simp add: statusOf_def itemOf_fresh)

lemma markError_fresh:
  assumes "\<forall>i\<in>set q. itemId i \<noteq> uploadId" "itemId item = uploadId"
  shows "markError uploadId (q @ [item]) = q @ [item\<lparr>status := ''error'', progress := Num 0\<rparr>]"
  unfolding markError_def by (rule updateItem_fresh [OF assms])

text \<open>
  A write of an upload changes no item of another id, wherever the items are in the
  queue: uploads that run side by side leave each other's items alone.
\<close>

lemma updateItem_others:
  "length (updateItem uploadId f q) = length q
   \<and> (\<forall>j<length q. itemId (q ! j) \<noteq> uploadId \<longrightarrow> updateItem uploadId f q ! j = q ! j)"
proof (cases "findIndex (\<lambda>i. itemId i = uploadId) q")
  case None
  then show ?thesis by (simp add: updateItem_def)
next
  case (Some k)
  then have "itemId (q ! k) = uploadId" by (simp add: findIndex_Some_iff)
  then have "\<forall>j<length q. itemId (q ! j) \<noteq> uploadId \<longrightarrow> j \<noteq> k" by auto
  with Some show ?thesis by (auto simp: updateItem_def)
qed

text \<open>The timer's callback takes the item out of the queue and leaves the others.\<close>

lemma removeItem_fresh:
  assumes "\<forall>i\<in>set q. itemId i \<noteq> uploadId" "itemId item = uploadId"
  shows "removeItem uploadId (q @ [item]) = q"
  using assms by (induction q) (auto simp: removeItem_def)

lemma removeItem_others:
  "set (removeItem uploadId q) = {i \<in> set q. itemId i \<noteq> uploadId}"
  by (auto simp: removeItem_def)

lemma fold_progress:
  assumes "\<forall>i\<in>set q. itemId i \<noteq> uploadId" "itemId item = uploadId"
  shows "last h = q @ [item] \<Longrightarrow>
     fold (onUploadProgress (Some (\<lambda>v. written (setProgress uploadId v)))) events h =
       h @ map (\<lambda>e. q @ [item\<lparr>progress := percentCompleted e\<rparr>]) events"
proof (induction events arbitrary: h rule: rev_induct)
  case Nil
  then show ?case by simp
next
  case (snoc e events)
  let ?h = "h @ map (\<lambda>e. q @ [item\<lparr>progress := percentCompleted e\<rparr>]) events"
  have "\<exists>it. last ?h = q @ [it] \<and> itemId it = itemId item \<and>
      it\<lparr>progress := percentCompleted e\<rparr> = item\<lparr>progress := percentCompleted e\<rparr>"
    using snoc.prems(1) by (cases events rule: rev_cases) auto
  then obtain it where it: "last ?h = q @ [it]" "itemId it = itemId item"
      "it\<lparr>progress := percentCompleted e\<rparr> = item\<lparr>progress := percentCompleted e\<rparr>" by blast
  have mine: "itemId it = uploadId" using it(2) assms(2) by simp
  have "setProgress uploadId (percentCompleted e) (q @ [it]) =
      q @ [it\<lparr>progress := percentCompleted e\<rparr>]"
    unfolding setProgress_def by (rule updateItem_fresh [OF assms(1) mine])
  then have "written (setProgress uploadId (percentCompleted e)) ?h =
      ?h @ [q @ [item\<lparr>progress := percentCompleted e\<rparr>]]"
    using it(1,3) by (simp add: written_def)
  then show ?case
    using snoc.IH [OF snoc.prems] by (simp add: onUploadProgress_def)
qed

text \<open>
  Every value the queue takes during an upload whose id is new to the queue, written
  out: the item pushed, the item with each reported progress in turn, and, after a
  failure, the item marked.
\<close>

lemma uploadFile_history:
  assumes fresh: "\<forall>i\<in>set q. itemId i \<noteq> uploadId"
  shows "fst (uploadFile q uploadId f granted events rejected) =
           map (\<lambda>it. q @ [it])
             (\<lparr>itemId = uploadId, fileOf = f, progress = Num 0, status = ''uploading''\<rparr> #
              (if isl granted then []
               else map (\<lambda>e. \<lparr>itemId = uploadId, fileOf = f, progress = percentCompleted e,
                                status = ''uploading''\<rparr>) events) @
              (if isl granted \<or> rejected \<noteq> None
               then [\<lparr>itemId = uploadId, fileOf = f, progress = Num 0, status = ''error''\<rparr>]
               else []))"
proof -
  let ?item = "\<lparr>itemId = uploadId, fileOf = f, progress = Num 0, status = ''uploading''\<rparr>"
  let ?h1 = "[q @ [?item]] @ map (\<lambda>e. q @ [?item\<lparr>progress := percentCompleted e\<rparr>]) events"
  have id: "itemId ?item = uploadId" by simp
  have prog: "fold (onUploadProgress (Some (\<lambda>v. written (setProgress uploadId v)))) events
      [q @ [?item]] = ?h1"
    by (rule fold_progress [OF fresh id]) simp
  have "\<exists>it. last ?h1 = q @ [it] \<and> itemId it = uploadId \<and> fileOf it = f"
    by (cases events rule: rev_cases) auto
  then obtain it where it: "last ?h1 = q @ [it]" "itemId it = uploadId" "fileOf it = f"
    by blast
  have "markError uploadId (last ?h1) = q @ [it\<lparr>status := ''error'', progress := Num 0\<rparr>]"
    unfolding it(1) by (rule markError_fresh [OF fresh it(2)])
  moreover have "it\<lparr>status := ''error'', progress := Num 0\<rparr> =
      \<lparr>itemId = uploadId, fileOf = f, progress = Num 0, status = ''error''\<rparr>"
    using it(2,3) by (cases it) simp
  ultimately have err: "markError uploadId (last ?h1) =
      q @ [\<lparr>itemId = uploadId, fileOf = f, progress = Num 0, status = ''error''\<rparr>]"
    by simp
  show ?thesis
  proof (cases granted)
    case (Inl e)
    then show ?thesis
      using fresh by (simp add: uploadFile_def written_def markError_fresh)
  next
    case (Inr g)
    show ?thesis
    proof (cases rejected)
      case None
      with Inr show ?thesis
        by (simp add: uploadFile_def apiService_uploadToS3_def prog comp_def)
    next
      case (Some e)
      with Inr err show ?thesis
        by (simp add: uploadFile_def apiService_uploadToS3_def prog written_def comp_def)
    qed
  qed
qed

text \<open>
  Claim C6, as the code has it. An item of the dashboard's queue has two statuses,
  \<open>uploading\<close> and \<open>error\<close>. Take an upload whose id no item of the queue has. Its item is
  pushed with the status \<open>uploading\<close> and the progress 0 before the grant is asked for.
  The statuses the item then takes, write after write, are \<open>uploading\<close> after every
  progress report and, if the grant or the transfer failed, \<open>error\<close> once and last, with
  the progress set back to 0: nothing is written to the item after \<open>error\<close>, and no
  timer is set, so the item stays in the queue. After a transfer that succeeded the status
  is still \<open>uploading\<close>, and one timer is set, of 2000 milliseconds, whose callback
  removes the item from the queue. The other items of the queue are the same in every
  value the queue takes.
\<close>

theorem uploadFile_statuses:
  assumes fresh: "\<forall>i\<in>set q. itemId i \<noteq> uploadId"
  shows "hd (fst (uploadFile q uploadId f granted events rejected)) =
           q @ [\<lparr>itemId = uploadId, fileOf = f, progress = Num 0, status = ''uploading''\<rparr>]
       \<and> map (statusOf uploadId) (fst (uploadFile q uploadId f granted events rejected)) =
           replicate (Suc (if isl granted then 0 else length events)) (Some ''uploading'') @
             (if isl granted \<or> rejected \<noteq> None then [Some ''error''] else [])
       \<and> (\<forall>h\<in>set (fst (uploadFile q uploadId f granted events rejected)).
            \<exists>it. h = q @ [it] \<and> itemId it = uploadId \<and> fileOf it = f)
       \<and> (isl granted \<or> rejected \<noteq> None \<longrightarrow>
            last (fst (uploadFile q uploadId f granted events rejected)) =
              q @ [\<lparr>itemId = uploadId, fileOf = f, progress = Num 0, status = ''error''\<rparr>]
            \<and> snd (uploadFile q uploadId f granted events rejected) = None)
       \<and> (\<not> (isl granted \<or> rejected \<noteq> None) \<longrightarrow>
            snd (uploadFile q uploadId f granted events rejected) = Some (2000, removeItem uploadId)
            \<and> removeItem uploadId (last (fst (uploadFile q uploadId f granted events rejected))) = q)"
proof -
  let ?u = "uploadFile q uploadId f granted events rejected"
  let ?start = "\<lparr>itemId = uploadId, fileOf = f, progress = Num 0, status = ''uploading''\<rparr>"
  let ?failed = "\<lparr>itemId = uploadId, fileOf = f, progress = Num 0, status = ''error''\<rparr>"
  let ?reports = "if isl granted then []
      else map (\<lambda>e. \<lparr>itemId = uploadId, fileOf = f, progress = percentCompleted e,
                       status = ''uploading''\<rparr>) events"
  let ?end = "if isl granted \<or> rejected \<noteq> None then [?failed] else []"
  have h: "fst ?u = map (\<lambda>it. q @ [it]) (?start # ?reports @ ?end)"
    by (rule uploadFile_history [OF fresh])
  have st: "statusOf uploadId (q @ [it]) = Some (status it)" if "itemId it = uploadId" for it
    using fresh that by (rule statusOf_fresh)
  have a: "hd (fst ?u) = q @ [?start]"
    unfolding h by simp
  have "map (statusOf uploadId) (fst ?u) = map (\<lambda>it. Some (status it)) (?start # ?reports @ ?end)"
    unfolding h by (simp add: st comp_def)
  then have b: "map (statusOf uploadId) (fst ?u) =
      replicate (Suc (if isl granted then 0 else length events)) (Some ''uploading'') @
        (if isl granted \<or> rejected \<noteq> None then [Some ''error''] else [])"
    by (simp add: comp_def map_replicate_const)
  have c: "\<forall>h\<in>set (fst ?u). \<exists>it. h = q @ [it] \<and> itemId it = uploadId \<and> fileOf it = f"
    unfolding h by auto
  have d: "last (fst ?u) = q @ [?failed]" if "isl granted \<or> rejected \<noteq> None"
    unfolding h using that by (simp add: last_map)
  have t: "snd ?u = (if isl granted \<or> rejected \<noteq> None then None
      else Some (2000, removeItem uploadId))"
    by (cases granted; cases rejected) (simp_all add: uploadFile_def apiService_uploadToS3_def)
  have "\<exists>it. last (fst ?u) = q @ [it] \<and> itemId it = uploadId"
    using c last_in_set [of "fst ?u"] unfolding h by auto
  then have e: "removeItem uploadId (last (fst ?u)) = q"
    using fresh by (auto simp: removeItem_fresh)
  from a b c d t e show ?thesis by auto
qed

text \<open>
  The upload of \<open>bird.jpg\<close> into an empty queue: with a grant and the transfer reported
  at 0, 50 and 100 percent the item is \<open>uploading\<close> four times over, and the timer of
  2000 milliseconds is set; with a refused grant it is \<open>uploading\<close>, then \<open>error\<close>, and
  no timer is set.
\<close>

theorem uploadFile_statuses_witness:
  "map (statusOf 1) (fst (uploadFile [] 1 demoFile (Inr demoGrant) demoTransfer None)) =
     [Some ''uploading'', Some ''uploading'', Some ''uploading'', Some ''uploading'']
   \<and> snd (uploadFile [] 1 demoFile (Inr demoGrant) demoTransfer None) = Some (2000, removeItem 1)
   \<and> removeItem 1 (last (fst (uploadFile [] 1 demoFile (Inr demoGrant) demoTransfer None))) = []
   \<and> map (statusOf 1) (fst (uploadFile [] 1 demoFile (Inl NetworkError) demoTransfer None)) =
     [Some ''uploading'', Some ''error'']
   \<and> snd (uploadFile [] 1 demoFile (Inl NetworkError) demoTransfer None) = None"
  using uploadFile_statuses [of "[]" 1 demoFile "Inr demoGrant" demoTransfer None]
    uploadFile_statuses [of "[]" 1 demoFile "Inl NetworkError" demoTransfer None]
  by (simp add: demoTransfer_def numeral_3_eq_3)

text \<open>
  Claim C6 as the specification words it fails on the scenario of its section 8: the
  grant is given, the transfer succeeds, and the item is never \<open>pending\<close> and never
  \<open>completed\<close>; it starts and ends as \<open>uploading\<close>, with the progress 100.
\<close>

theorem uploadFile_never_completed_counterexample:
  "hd (map (statusOf 1) (fst (uploadFile [] 1 demoFile (Inr demoGrant) demoTransfer None))) =
     Some ''uploading''
   \<and> hd (map (statusOf 1) (fst (uploadFile [] 1 demoFile (Inr demoGrant) demoTransfer None))) \<noteq>
     Some ''pending''
   \<and> last (map (statusOf 1) (fst (uploadFile [] 1 demoFile (Inr demoGrant) demoTransfer None))) =
     Some ''uploading''
   \<and> last (map (statusOf 1) (fst (uploadFile [] 1 demoFile (Inr demoGrant) demoTransfer None))) \<noteq>
     Some ''completed''
   \<and> map_option progress
       (itemOf 1 (last (fst (uploadFile [] 1 demoFile (Inr demoGrant) demoTransfer None)))) =
     Some (Num 100)"
  by (simp add: uploadFile_def apiService_uploadToS3_def onUploadProgress_def written_def
      setProgress_def updateItem_def percentCompleted_def jsDivide_def statusOf_def itemOf_def
      demoTransfer_def floor_eq_iff)

text \<open>
  The condition on the id is needed: the code finds an item by the first id that
  matches. When the queue holds an item of a failed upload and a new upload draws the
  same id, the progress reports of the new upload are written to the failed item.
\<close>

lemma uploadFile_same_id:
  "map (map (\<lambda>i. (status i, progress i)))
     (fst (uploadFile demoFailed 1 demoFile (Inr demoGrant) [\<lparr>ax_loaded = 1024, ax_total = Some 2048\<rparr>] None)) =
     [[(''error'', Num 0), (''uploading'', Num 0)], [(''error'', Num 50), (''uploading'', Num 0)]]"
  by (simp add: uploadFile_def apiService_uploadToS3_def onUploadProgress_def written_def
      setProgress_def updateItem_def percentCompleted_def jsDivide_def demoFailed_def Let_def
      floor_eq_iff)

section \<open>The push channel: connecting twice, disconnecting, retrying\<close>

text \<open>
  The guard of the second service: while a \<open>connect\<close> is in progress or the socket is
  open, \<open>connect\<close> neither suspends another call nor touches the sockets.
\<close>

lemma svc_connect_guarded:
  "isConnecting s \<or> svc_isOpen s \<Longrightarrow>
     svc_sockets (svc_connect fid s) = svc_sockets s \<and> awaiting (svc_connect fid s) = awaiting s
     \<and> svc_ws (svc_connect fid s) = svc_ws s"
  by (auto simp: svc_connect_def svc_log_def)

text \<open>The guard of the first service covers an open socket only.\<close>

lemma connect_guarded_when_open:
  "isConnected s \<Longrightarrow> sockets (connect p fid h s) = sockets s \<and> ws (connect p fid h s) = ws s"
  by (simp add: connect_def consoleLog_def)

text \<open>
  So a \<open>connect\<close> of the first service that finds the socket still connecting, with a
  token stored and the URL accepted, constructs one more socket and points to it.
\<close>

lemma connect_while_connecting:
  assumes "ws s = Some i" "socketIs s i {CONNECTING}"
    and "truthyStr (getToken (localStorage (page s)))" "\<forall>u. urlAccepted p u"
  shows "length (sockets (connect p fid h s)) = Suc (length (sockets s))
       \<and> ws (connect p fid h s) = Some (length (sockets s))"
  using assms by (auto simp: connect_def isConnected_def socketIs_def Let_def)

text \<open>
  Claim C2, on the first service. With a token stored, \<open>connect\<close> is called, and called
  again before the socket has opened. The first call leaves the channel connecting; the
  second call constructs a second socket, and the service then points to that one while
  the first is still connecting.
\<close>

theorem connect_while_connecting_opens_second:
  "map readyState (sockets (run demoPlatform quiet
      [Connect (Some ''f-001'') demoHandlers] (constructed demoBrowser))) = [CONNECTING]
   \<and> map readyState (sockets (run demoPlatform quiet
      [Connect (Some ''f-001'') demoHandlers, Connect (Some ''f-001'') demoHandlers]
      (constructed demoBrowser))) = [CONNECTING, CONNECTING]
   \<and> ws (run demoPlatform quiet
      [Connect (Some ''f-001'') demoHandlers, Connect (Some ''f-001'') demoHandlers]
      (constructed demoBrowser)) = Some 1"
  by (simp add: run_def connect_def isConnected_def socketIs_def constructed_def getToken_def
      Let_def demoPlatform_def demoBrowser_def demoHandlers_def)

lemma demo_token: "svc_token (demoAuth (Some 1800000000)) = ''id.jwt''"
  by (simp add: svc_token_def getUserSession_def getOAuthSession_def tokenExpired_def
      demoAuth_def demoPayload_def)

text \<open>Neither \<open>disconnect\<close> touches the pending timers.\<close>

lemma disconnect_keeps_timers:
  "timers (disconnect s) = timers s \<and> svc_timers (svc_disconnect t) = svc_timers t"
  by (simp add: disconnect_def svc_disconnect_def setReadyState_def svc_setReadyState_def Let_def
      split: option.splits)

text \<open>
  Claim C3, on both services. The socket opens and then closes with code 1006, which
  schedules a retry; \<open>disconnect\<close> is called; the timer fires. In both services the
  timer's \<open>connect\<close> constructs a new socket, which the service then points to: the first
  service has no socket left to close and no handle of the timer, and in the second the
  attempts counter that \<open>disconnect\<close> raises to its maximum is not read by \<open>connect\<close>.
\<close>

theorem retry_after_disconnect_reconnects:
  "map readyState (sockets (run demoPlatform quiet
      [Connect (Some ''f-001'') demoHandlers, Opened 0, Closed 0 1006, Disconnect]
      (constructed demoBrowser))) = [CLOSED]
   \<and> map readyState (sockets (run demoPlatform quiet
      [Connect (Some ''f-001'') demoHandlers, Opened 0, Closed 0 1006, Disconnect, TimerFired 0]
      (constructed demoBrowser))) = [CLOSED, CONNECTING]
   \<and> ws (run demoPlatform quiet
      [Connect (Some ''f-001'') demoHandlers, Opened 0, Closed 0 1006, Disconnect, TimerFired 0]
      (constructed demoBrowser)) = Some 1
   \<and> map svc_readyState (svc_sockets (svc_run demoPlatform quiet
      [SvcConnect [], SvcResumed, SvcOpened 0, SvcClosed 0 1006, SvcDisconnect] demoService)) =
      [CLOSED]
   \<and> map svc_readyState (svc_sockets (svc_run demoPlatform quiet
      [SvcConnect [], SvcResumed, SvcOpened 0, SvcClosed 0 1006, SvcDisconnect, SvcTimerFired 0,
       SvcResumed] demoService)) = [CLOSED, CONNECTING]
   \<and> svc_ws (svc_run demoPlatform quiet
      [SvcConnect [], SvcResumed, SvcOpened 0, SvcClosed 0 1006, SvcDisconnect, SvcTimerFired 0,
       SvcResumed] demoService) = Some 1"
  by (simp add: run_def connect_def isConnected_def socketIs_def constructed_def getToken_def
      onopen_def onclose_def reconnect_def disconnect_def setReadyState_def consoleLog_def
      addMessageListener_def maxReconnectAttempts_def reconnectDelay_def asString_def
      svc_run_def svc_connect_def svc_isOpen_def svc_socketIs_def svc_log_def svc_connected_def
      demo_token svc_failed_def cleanUrl_def svc_onclose_def svc_onopen_def
      notifyConnectionHandlers_def svc_setReadyState_def svc_constructed_def
      svc_maxReconnectAttempts_def svc_reconnectDelay_def svc_disconnect_def demoService_def
      demoPlatform_def demoBrowser_def demoHandlers_def Let_def)

text \<open>
  The retry delay of the first service grows with the attempt: an abnormal close below
  the maximum raises the counter by one and schedules the retry after 1000 ms times the
  new count.
\<close>

lemma onclose_backoff:
  assumes "code \<noteq> 1000" "reconnectAttempts s < maxReconnectAttempts"
  shows "reconnectAttempts (onclose i code s) = Suc (reconnectAttempts s)
       \<and> timers (onclose i code s) =
           timers s @ [\<lparr>delay = 1000 * Suc (reconnectAttempts s),
                        timerCaptured = captured (sockets s ! i)\<rparr>]"
  using assms by (simp add: onclose_def consoleLog_def reconnectDelay_def Let_def)

text \<open>The retry delay of the second service is 3000 ms whatever the attempt.\<close>

lemma svc_onclose_delay:
  assumes "code \<noteq> 1000" "svc_reconnectAttempts s < svc_maxReconnectAttempts"
  shows "svc_reconnectAttempts (svc_onclose throws i code s) = Suc (svc_reconnectAttempts s)
       \<and> svc_timers (svc_onclose throws i code s) =
           svc_timers s @ [(3000, svc_fileId (svc_sockets s ! i))]"
  using assms
  by (simp add: svc_onclose_def notifyConnectionHandlers_def fold_svc_notifyOne svc_log_def
      svc_reconnectDelay_def Let_def)

text \<open>
  Claim C4, on the second service. Two abnormal closures in a row, the second of the
  socket that the first retry made: the counter goes to 1 and then to 2, and the retry is
  scheduled after 3000 ms both times.
\<close>

theorem svc_retry_delay_constant:
  "svc_timers (svc_run demoPlatform quiet
      [SvcConnect [], SvcResumed, SvcClosed 0 1006] demoService) = [(3000, [])]
   \<and> svc_reconnectAttempts (svc_run demoPlatform quiet
      [SvcConnect [], SvcResumed, SvcClosed 0 1006] demoService) = 1
   \<and> svc_timers (svc_run demoPlatform quiet
      [SvcConnect [], SvcResumed, SvcClosed 0 1006, SvcTimerFired 0, SvcResumed, SvcClosed 1 1006]
      demoService) = [(3000, [])]
   \<and> svc_reconnectAttempts (svc_run demoPlatform quiet
      [SvcConnect [], SvcResumed, SvcClosed 0 1006, SvcTimerFired 0, SvcResumed, SvcClosed 1 1006]
      demoService) = 2"
  by (simp add: svc_run_def svc_connect_def svc_isOpen_def svc_socketIs_def svc_log_def
      svc_connected_def demo_token svc_failed_def cleanUrl_def svc_onclose_def
      notifyConnectionHandlers_def svc_setReadyState_def svc_constructed_def
      svc_maxReconnectAttempts_def svc_reconnectDelay_def demoService_def demoPlatform_def Let_def)

end
